theory Spec2Isabelle
  imports Main "HOL-Library.AList" "HOL-Library.Char_ord" "HOL-Library.List_Lexorder"
    "HOL-Library.Word"
begin

section \<open>Package payment: a shallow embedding of payment.go\<close>

text \<open>
  Go strings are byte strings: \<^typ>\<open>string\<close> holds the bytes, \<open>length\<close> is Go's \<open>len\<close>.
  A Go \<open>int\<close>, \<open>int64\<close> value is an \<^typ>\<open>int\<close>; the only arithmetic of the package is the
  loop counter \<open>i++\<close> below a bound of the same type, which cannot wrap.
  A Go \<open>map[string]string\<close> is an association list read with \<open>map_of\<close> and written with
  \<open>AList.update\<close>: a literal is the list of its pairs, \<open>m[k] = v\<close> is \<open>AList.update k v m\<close>.
  A function returning \<open>(T, error)\<close> returns a pair of the value and an optional error,
  as Go returns both.
\<close>

subsection \<open>Errors and outcomes\<close>

text \<open>
  \<open>ErrorsNew s\<close> is \<open>errors.New(s)\<close>, made by this package; \<open>External s\<close> is an error value
  handed back by a collaborator (util, encoding/xml, etree, net/http), named by its text.
  A run either returns or panics (a nil pointer dereference).
\<close>

datatype error = ErrorsNew string | External string

datatype 'a outcome = Returned 'a | Panicked

subsection \<open>Constants\<close>

definition baseURL :: string where
  "baseURL = ''https://api.mch.weixin.qq.com''"

definition unifyAPI :: string where
  "unifyAPI = ''/pay/unifiedorder''"

definition paymentTimeFormat :: string where
  "paymentTimeFormat = ''20060102150405''"

text \<open>The three message literals of the package, as their UTF-8 bytes.\<close>

definition msg_trade_failed :: string where
  "msg_trade_failed =
     [CHR 0xE4, CHR 0xBA, CHR 0xA4, CHR 0xE6, CHR 0x98, CHR 0x93,
      CHR 0xE5, CHR 0xA4, CHR 0xB1, CHR 0xE8, CHR 0xB4, CHR 0xA5] @ '': ''"

definition msg_error_occurred :: string where
  "msg_error_occurred =
     [CHR 0xE5, CHR 0x8F, CHR 0x91, CHR 0xE7, CHR 0x94, CHR 0x9F,
      CHR 0xE9, CHR 0x94, CHR 0x99, CHR 0xE8, CHR 0xAF, CHR 0xAF] @ '': ''"

definition msg_nonce_too_long :: string where
  "msg_nonce_too_long =
     [CHR 0xE9, CHR 0x9A, CHR 0x8F, CHR 0xE6, CHR 0x9C, CHR 0xBA,
      CHR 0xE5, CHR 0xAD, CHR 0x97, CHR 0xE7, CHR 0xAC, CHR 0xA6,
      CHR 0xE4, CHR 0xB8, CHR 0xB2, CHR 0xE9, CHR 0x95, CHR 0xBF,
      CHR 0xE5, CHR 0xBA, CHR 0xA6, CHR 0xE4, CHR 0xB8, CHR 0xBA] @ ''32'' @
     [CHR 0xE4, CHR 0xB8, CHR 0xAA, CHR 0xE5, CHR 0xAD, CHR 0x97,
      CHR 0xE7, CHR 0xAC, CHR 0xA6, CHR 0xE4, CHR 0xBB, CHR 0xA5,
      CHR 0xE4, CHR 0xB8, CHR 0x8B]"

subsection \<open>strconv and fmt, as far as the package calls them\<close>

fun dec_digits :: "nat \<Rightarrow> string" where
  "dec_digits n =
     (if n < 10 then [''0123456789'' ! n]
      else dec_digits (n div 10) @ [''0123456789'' ! (n mod 10)])"

text \<open>\<open>strconv.Itoa(i)\<close> and \<open>strconv.FormatInt(i, 10)\<close>: the decimal text of an integer.\<close>

definition FormatInt10 :: "int \<Rightarrow> string" where
  "FormatInt10 i = (if i < 0 then CHR ''-'' # dec_digits (nat (- i)) else dec_digits (nat i))"

definition Itoa :: "int \<Rightarrow> string" where
  "Itoa i = FormatInt10 i"

datatype NumError = ErrSyntax | ErrRange

definition is_digit :: "char \<Rightarrow> bool" where
  "is_digit c = (48 \<le> (of_char c :: nat) \<and> (of_char c :: nat) \<le> 57)"

definition digit_val :: "char \<Rightarrow> nat" where
  "digit_val c = of_char c - 48"

text \<open>
  The digit loop of \<open>strconv.ParseUint(s, 10, 64)\<close>: a byte that is no digit is a syntax
  error with value 0; a value past \<open>2^64 - 1\<close> is a range error with value \<open>2^64 - 1\<close>,
  returned at the digit that overflows.
\<close>

fun ParseUint_loop :: "string \<Rightarrow> nat \<Rightarrow> nat \<times> NumError option" where
  "ParseUint_loop [] n = (n, None)"
| "ParseUint_loop (c # cs) n =
     (if \<not> is_digit c then (0, Some ErrSyntax)
      else if 1844674407370955162 \<le> n then (18446744073709551615, Some ErrRange)
      else if 18446744073709551615 < n * 10 + digit_val c
        then (18446744073709551615, Some ErrRange)
      else ParseUint_loop cs (n * 10 + digit_val c))"

definition ParseUint :: "string \<Rightarrow> nat \<times> NumError option" where
  "ParseUint s = (if s = [] then (0, Some ErrSyntax) else ParseUint_loop s 0)"

text \<open>
  \<open>strconv.ParseInt(s, 10, 64)\<close>: an optional sign, then \<open>ParseUint\<close>; a syntax error
  gives 0, a value outside the int64 range gives the bound of its sign with a range error.
\<close>

definition ParseInt :: "string \<Rightarrow> int \<times> NumError option" where
  "ParseInt s =
     (if s = [] then (0, Some ErrSyntax)
      else
        (let neg = (hd s = CHR ''-'');
             s1 = (if hd s = CHR ''+'' \<or> hd s = CHR ''-'' then tl s else s);
             (un, err) = ParseUint s1
         in if err = Some ErrSyntax then (0, err)
            else if \<not> neg \<and> 9223372036854775808 \<le> un
              then (9223372036854775807, Some ErrRange)
            else if neg \<and> 9223372036854775808 < un
              then (- 9223372036854775808, Some ErrRange)
            else (if neg then - int un else int un, None)))"

text \<open>
  \<open>fmt.Sprintf(format, numbers...)\<close> for a format of literal text and \<open>%d\<close> verbs with
  integer operands, the only use the package makes of it: \<open>%d\<close> prints the next operand
  in decimal, a verb with no operand left prints \<open>%!d(MISSING)\<close>, operands left over are
  listed after the text.
\<close>

fun extra_operands :: "int list \<Rightarrow> string" where
  "extra_operands [] = []"
| "extra_operands [n] = ''int='' @ FormatInt10 n"
| "extra_operands (n # m # ns) = ''int='' @ FormatInt10 n @ '', '' @ extra_operands (m # ns)"

fun Sprintf :: "string \<Rightarrow> int list \<Rightarrow> string" where
  "Sprintf [] ns = (if ns = [] then [] else ''%!(EXTRA '' @ extra_operands ns @ '')'')"
| "Sprintf [c] ns = c # Sprintf [] ns"
| "Sprintf (c # d # fmt) ns =
     (if c = CHR ''%'' \<and> d = CHR ''d''
      then (case ns of
              [] \<Rightarrow> ''%!d(MISSING)'' @ Sprintf fmt []
            | n # ns' \<Rightarrow> FormatInt10 n @ Sprintf fmt ns')
      else c # Sprintf (d # fmt) ns)"

subsection \<open>time.Time\<close>

text \<open>
  A \<open>time.Time\<close>: seconds and nanoseconds since January 1, year 1, 00:00:00 UTC, and the
  name of its location. \<open>IsZero\<close> reads the instant only.
\<close>

record Time =
  t_sec :: int
  t_nsec :: int
  t_loc :: string

definition IsZero :: "Time \<Rightarrow> bool" where
  "IsZero t = (t_sec t = 0 \<and> t_nsec t = 0)"

subsection \<open>The order structs\<close>

record Order =
  AppID :: string
  MchID :: string
  TotalFee :: int
  NotifyURL :: string
  OpenID :: string
  Body :: string
  OutTradeNo :: string
  IP :: string
  NoCredit :: bool
  StartedAt :: Time
  ExpiredAt :: Time
  Tag :: string
  Detail :: string
  Attach :: string

text \<open>
  The unexported \<open>order\<close> embeds \<open>Order\<close> (field \<open>Order\<close>) and shadows three of its
  fields with strings of its own, written here with the suffix \<open>_s\<close>.
\<close>

record order =
  Order :: Order
  Sign :: string
  NonceStr :: string
  TradeType :: string
  SignType :: string
  NoCredit_s :: string
  StartedAt_s :: string
  ExpiredAt_s :: string

record Params =
  Timestamp :: string
  NonceStr :: string
  SignType :: string
  PaySign :: string
  Package :: string

definition zero_Params :: Params where
  "zero_Params = \<lparr>Timestamp = [], Params.NonceStr = [], Params.SignType = [], PaySign = [],
     Package = []\<rparr>"

subsection \<open>The response envelope and its check\<close>

record response =
  ReturnCode :: string
  ReturnMsg :: string
  ResultCode :: string
  ErrCode :: string
  ErrCodeDes :: string

definition Check :: "response \<Rightarrow> error option" where
  "Check res =
     (if ReturnCode res \<noteq> ''SUCCESS'' then Some (ErrorsNew (msg_trade_failed @ ReturnMsg res))
      else if ResultCode res \<noteq> ''SUCCESS''
        then Some (ErrorsNew (msg_error_occurred @ ErrCodeDes res))
      else None)"

record PaidResponse =
  AppID :: string
  MchID :: string
  PrePayID :: string
  Sign :: string
  NonceStr :: string

definition zero_PaidResponse :: PaidResponse where
  "zero_PaidResponse = \<lparr>PaidResponse.AppID = [], PaidResponse.MchID = [], PrePayID = [],
     PaidResponse.Sign = [], PaidResponse.NonceStr = []\<rparr>"

record paidResponse =
  response :: response
  PaidResponse :: PaidResponse

subsection \<open>The notification structs\<close>

text \<open>A \<open>float64\<close> is kept as its IEEE 754 bit pattern; the package does no arithmetic on it.\<close>

datatype float64 = Float64 "64 word"

record CouponResponseModel =
  CouponId :: string
  CouponFee :: int

record PaidNotify =
  AppID :: string
  MchID :: string
  TotalFee :: int
  NonceStr :: string
  Sign :: string
  SignType :: string
  OpenID :: string
  TradeType :: string
  Bank :: string
  Settlement :: float64
  FeeType :: string
  CashFee :: float64
  CashFeeType :: string
  CouponFee :: float64
  CouponCount :: int
  TransactionID :: string
  Attach :: string
  IsSubscribe :: string
  OutTradeNo :: string
  Timeend :: string
  Coupons :: "CouponResponseModel list"

record paidNotify =
  response :: response
  PaidNotify :: PaidNotify

record replay =
  Code :: string
  Msg :: string

definition newReplay :: "bool \<Rightarrow> string \<Rightarrow> replay" where
  "newReplay ok msg =
     (let ret = \<lparr>Code = [], Msg = msg\<rparr>
      in if ok then ret\<lparr>Code := ''SUCCESS''\<rparr> else ret\<lparr>Code := ''FAIL''\<rparr>)"

subsection \<open>The element tree of etree\<close>

text \<open>
  An element of the tree \<open>etree\<close> reads from a document: its tag, the character data
  after its opening tag, and its child elements. A document is an element whose children
  are the top-level elements. \<open>SelectElement\<close> returns the first child with the tag, or
  nil (\<open>None\<close>).
\<close>

datatype Element = Element (Tag: string) (Text: string) (Child: "Element list")

definition SelectElement :: "Element \<Rightarrow> string \<Rightarrow> Element option" where
  "SelectElement e tag = find (\<lambda>c. Tag c = tag) (Child e)"

subsection \<open>Collaborators and the calls made to them\<close>

text \<open>
  What the package calls outside itself is a parameter of the model: the functions of
  package util (\<open>RandomString\<close>, \<open>FetchIP\<close> with the text of the address it finds,
  \<open>SignByMD5\<close>, \<open>PostXML\<close>), \<open>Time.Format\<close>, the clock (\<open>time.Now().Unix()\<close>) and
  \<open>xml.Unmarshal\<close> into a \<open>paidResponse\<close>.
\<close>

record util_env =
  RandomString :: "nat \<Rightarrow> string"
  FetchIP :: "error + string"
  SignByMD5 :: "(string \<times> string) list \<Rightarrow> string \<Rightarrow> string \<times> error option"
  PostXML :: "string \<Rightarrow> order \<Rightarrow> error + string"
  Format :: "Time \<Rightarrow> string \<Rightarrow> string"
  Now_Unix :: int
  Unmarshal_paidResponse :: "string \<Rightarrow> error + paidResponse"

text \<open>
  For the notification handler: \<open>xml.Unmarshal\<close> into a \<open>paidNotify\<close>,
  \<open>doc.ReadFromBytes\<close> of etree, \<open>xml.Marshal\<close> of the reply, and the error of
  \<open>res.Write\<close>.
\<close>

record notify_env =
  Unmarshal_paidNotify :: "string \<Rightarrow> error + paidNotify"
  ReadFromBytes :: "string \<Rightarrow> error + Element"
  Marshal_replay :: "replay \<Rightarrow> error + string"
  Write_error :: "string \<Rightarrow> error option"

text \<open>Every function returns, beside its Go results, the calls it made, in order.\<close>

datatype event =
    CallRandomString nat
  | CallFetchIP
  | CallSignByMD5 "(string \<times> string) list" string
  | CallPostXML string order
  | CallNow
  | CallDecide PaidNotify
  | WriteHeader nat
  | Write string

fun signed_fields :: "event list \<Rightarrow> (string \<times> string) list list" where
  "signed_fields [] = []"
| "signed_fields (CallSignByMD5 sd k # es) = sd # signed_fields es"
| "signed_fields (e # es) = signed_fields es"

fun decided :: "event list \<Rightarrow> PaidNotify list" where
  "decided [] = []"
| "decided (CallDecide n # es) = n # decided es"
| "decided (e # es) = decided es"

fun written :: "event list \<Rightarrow> string list" where
  "written [] = []"
| "written (Write b # es) = b # written es"
| "written (e # es) = written es"

subsection \<open>prepare\<close>

text \<open>
  The conditional assignments of \<open>prepare\<close> (the \<open>if\<close> statements on \<open>StartedAt\<close>,
  \<open>ExpiredAt\<close>, \<open>Attach\<close>, \<open>Detail\<close>, \<open>Tag\<close> and \<open>NoCredit\<close>), run on the order and the
  sign data built so far.
\<close>

definition optional_fields ::
  "util_env \<Rightarrow> Order \<Rightarrow> order \<Rightarrow> (string \<times> string) list \<Rightarrow> order \<times> (string \<times> string) list" where
  "optional_fields env odr od signData =
     (let od = (if \<not> IsZero (StartedAt odr)
                then od\<lparr>StartedAt_s := Format env (StartedAt odr) paymentTimeFormat\<rparr>
                else od);
          signData = (if \<not> IsZero (StartedAt odr)
                then AList.update ''time_start'' (StartedAt_s od) signData
                else signData);
          od = (if \<not> IsZero (ExpiredAt odr)
                then od\<lparr>ExpiredAt_s := Format env (ExpiredAt odr) paymentTimeFormat\<rparr>
                else od);
          signData = (if \<not> IsZero (ExpiredAt odr)
                then AList.update ''time_expire'' (ExpiredAt_s od) signData
                else signData);
          signData = (if Order.Attach odr \<noteq> []
                then AList.update ''attach'' (Order.Attach (Order od)) signData
                else signData);
          signData = (if Detail odr \<noteq> []
                then AList.update ''detail'' (Detail (Order od)) signData
                else signData);
          signData = (if Order.Tag odr \<noteq> []
                then AList.update ''goods_tag'' (Order.Tag (Order od)) signData
                else signData);
          od = (if NoCredit odr then od\<lparr>NoCredit_s := ''no_credit''\<rparr> else od);
          signData = (if NoCredit odr
                then AList.update ''limit_pay'' (NoCredit_s od) signData
                else signData)
      in (od, signData))"

definition prepare :: "util_env \<Rightarrow> Order \<Rightarrow> string \<Rightarrow> (order \<times> error option) \<times> event list" where
  "prepare env odr key =
     (let od = \<lparr>Order = odr, order.Sign = [], order.NonceStr = RandomString env 32,
                order.TradeType = ''JSAPI'', order.SignType = ''MD5'',
                NoCredit_s = [], StartedAt_s = [], ExpiredAt_s = []\<rparr>;
          signData =
            [(''appid'', Order.AppID (Order od)),
             (''body'', Body (Order od)),
             (''mch_id'', Order.MchID (Order od)),
             (''nonce_str'', order.NonceStr od),
             (''notify_url'', NotifyURL (Order od)),
             (''openid'', Order.OpenID (Order od)),
             (''out_trade_no'', Order.OutTradeNo (Order od)),
             (''total_fee'', Itoa (Order.TotalFee (Order od))),
             (''trade_type'', order.TradeType od),
             (''sign_type'', order.SignType od)];
          fetched = (if IP odr = [] then Some (FetchIP env) else None);
          tr = CallRandomString 32 # (if IP odr = [] then [CallFetchIP] else [])
      in case fetched of
           Some (Inl err) \<Rightarrow> ((od, Some err), tr)
         | _ \<Rightarrow>
           (let od = (case fetched of
                        Some (Inr ip) \<Rightarrow> od\<lparr>Order := (Order od)\<lparr>IP := ip\<rparr>\<rparr>
                      | _ \<Rightarrow> od);
                signData = AList.update ''spbill_create_ip'' (IP (Order od)) signData;
                (od, signData) = optional_fields env odr od signData;
                (sign, err) = SignByMD5 env signData key;
                tr = tr @ [CallSignByMD5 signData key]
            in case err of
                 Some e \<Rightarrow> ((od, Some e), tr)
               | None \<Rightarrow> ((od\<lparr>order.Sign := sign\<rparr>, None), tr)))"

subsection \<open>GetParams\<close>

definition GetParams ::
  "util_env \<Rightarrow> string \<Rightarrow> string \<Rightarrow> string \<Rightarrow> string \<Rightarrow> (Params \<times> error option) \<times> event list" where
  "GetParams env appID key nonceStr prepayID =
     (if 32 < length nonceStr then ((zero_Params, Some (ErrorsNew msg_nonce_too_long)), [])
      else
        (let p = zero_Params\<lparr>Timestamp := FormatInt10 (Now_Unix env)\<rparr>;
             p = p\<lparr>Params.SignType := ''MD5''\<rparr>;
             p = p\<lparr>Params.NonceStr := nonceStr\<rparr>;
             p = p\<lparr>Package := ''prepay_id='' @ prepayID\<rparr>;
             signData =
               [(''appId'', appID),
                (''signType'', Params.SignType p),
                (''nonceStr'', nonceStr),
                (''package'', Package p),
                (''timeStamp'', Timestamp p)];
             (sign, err) = SignByMD5 env signData key
         in ((p\<lparr>PaySign := sign\<rparr>, err), [CallNow, CallSignByMD5 signData key])))"

subsection \<open>Unify\<close>

definition Unify ::
  "util_env \<Rightarrow> Order \<Rightarrow> string \<Rightarrow> (PaidResponse \<times> error option) \<times> event list" where
  "Unify env odr key =
     (case prepare env odr key of
        ((reqData, Some err), tr) \<Rightarrow> ((zero_PaidResponse, Some err), tr)
      | ((reqData, None), tr) \<Rightarrow>
          (let tr = tr @ [CallPostXML (baseURL @ unifyAPI) reqData]
           in case PostXML env (baseURL @ unifyAPI) reqData of
                Inl err \<Rightarrow> ((zero_PaidResponse, Some err), tr)
              | Inr data \<Rightarrow>
                  (case Unmarshal_paidResponse env data of
                     Inl err \<Rightarrow> ((zero_PaidResponse, Some err), tr)
                   | Inr res \<Rightarrow>
                       (case Check (paidResponse.response res) of
                          Some err \<Rightarrow> ((zero_PaidResponse, Some err), tr)
                        | None \<Rightarrow> ((PaidResponse res, None), tr)))))"

subsection \<open>HandlePaidNotify\<close>

text \<open>
  \<open>doc.SelectElement(name).Text()\<close> on a nil \<open>doc\<close>, or on the nil that \<open>SelectElement\<close>
  returns for a missing element, dereferences nil: the call panics. The error of
  \<open>ParseInt\<close> is assigned to the blank identifier.
\<close>

definition NewCouponResponseModel ::
  "Element option \<Rightarrow> string \<Rightarrow> string \<Rightarrow> int list \<Rightarrow> CouponResponseModel outcome" where
  "NewCouponResponseModel doc idFormat feeFormat numbers =
     (let idName = Sprintf idFormat numbers;
          feeName = Sprintf feeFormat numbers
      in case doc of
           None \<Rightarrow> Panicked
         | Some d \<Rightarrow>
             (case SelectElement d idName of
                None \<Rightarrow> Panicked
              | Some idElem \<Rightarrow>
                  (case SelectElement d feeName of
                     None \<Rightarrow> Panicked
                   | Some feeElem \<Rightarrow>
                       Returned \<lparr>CouponId = Text idElem,
                                 CouponResponseModel.CouponFee = fst (ParseInt (Text feeElem))\<rparr>)))"

text \<open>The loop \<open>for i := 0; i < ntf.CouponCount; i++\<close>, entered at \<open>i\<close> with the coupons so far.\<close>

function coupon_loop ::
  "Element option \<Rightarrow> int \<Rightarrow> int \<Rightarrow> CouponResponseModel list \<Rightarrow> CouponResponseModel list outcome" where
  "coupon_loop root count i coupons =
     (if i < count
      then (case NewCouponResponseModel root ''coupon_id_%d'' ''coupon_fee_%d'' [i] of
              Panicked \<Rightarrow> Panicked
            | Returned m \<Rightarrow> coupon_loop root count (i + 1) (coupons @ [m]))
      else Returned coupons)"
  by pat_completeness auto
termination
  by (relation "measure (\<lambda>(root, count, i, coupons). nat (count - i))") auto

text \<open>
  \<open>xml.Unmarshal(body, &ntf)\<close> fills a zero \<open>paidNotify\<close>; the field \<open>Coupons\<close> is tagged
  \<open>xml:"-"\<close>, which the decoder skips, so it is still nil afterwards.
\<close>

definition Unmarshal_ntf :: "notify_env \<Rightarrow> string \<Rightarrow> error + paidNotify" where
  "Unmarshal_ntf env body =
     (case Unmarshal_paidNotify env body of
        Inl err \<Rightarrow> Inl err
      | Inr ntf \<Rightarrow> Inr (ntf\<lparr>PaidNotify := (PaidNotify ntf)\<lparr>Coupons := []\<rparr>\<rparr>))"

text \<open>
  The request is the result of \<open>ioutil.ReadAll(req.Body)\<close>; \<open>fuck\<close> is the caller's
  decision function.
\<close>

definition HandlePaidNotify ::
  "notify_env \<Rightarrow> error + string \<Rightarrow> (PaidNotify \<Rightarrow> bool \<times> string) \<Rightarrow>
     error option outcome \<times> event list" where
  "HandlePaidNotify env req fuck =
     (case req of
        Inl err \<Rightarrow> (Returned (Some err), [])
      | Inr body \<Rightarrow>
          (case Unmarshal_ntf env body of
             Inl err \<Rightarrow> (Returned (Some err), [])
           | Inr ntf \<Rightarrow>
               (case (if 0 < CouponCount (PaidNotify ntf)
                      then (case ReadFromBytes env body of
                              Inl err \<Rightarrow> Inl err
                            | Inr doc \<Rightarrow>
                                Inr (coupon_loop (SelectElement doc ''xml'')
                                       (CouponCount (PaidNotify ntf)) 0 (Coupons (PaidNotify ntf))))
                      else Inr (Returned (Coupons (PaidNotify ntf)))) of
                  Inl err \<Rightarrow> (Returned (Some err), [])
                | Inr Panicked \<Rightarrow> (Panicked, [])
                | Inr (Returned coupons) \<Rightarrow>
                    (let ntf = ntf\<lparr>PaidNotify := (PaidNotify ntf)\<lparr>Coupons := coupons\<rparr>\<rparr>
                     in case Check (paidNotify.response ntf) of
                          Some err \<Rightarrow> (Returned (Some err), [])
                        | None \<Rightarrow>
                            (let answer = fuck (PaidNotify ntf);
                                 replay = newReplay (fst answer) (snd answer);
                                 tr = [CallDecide (PaidNotify ntf)]
                             in case Marshal_replay env replay of
                                  Inl err \<Rightarrow> (Returned (Some err), tr)
                                | Inr b \<Rightarrow>
                                    (Returned (Write_error env b),
                                     tr @ [WriteHeader 200, Write b]))))))"

subsection \<open>Notifications that differ in the sign field\<close>

text \<open>
  What the two parsers give for a body whose \<open>sign\<close> element has the text \<open>s\<close> instead:
  the decoded notification with \<open>Sign\<close> set to \<open>s\<close>, and the element tree with the text of
  every \<open>sign\<close> child of a top-level element set to \<open>s\<close>.
\<close>

definition ntf_with_sign :: "string \<Rightarrow> paidNotify \<Rightarrow> paidNotify" where
  "ntf_with_sign s ntf = ntf\<lparr>PaidNotify := (PaidNotify ntf)\<lparr>PaidNotify.Sign := s\<rparr>\<rparr>"

definition child_with_sign :: "string \<Rightarrow> Element \<Rightarrow> Element" where
  "child_with_sign s c = (if Tag c = ''sign'' then Element (Tag c) s (Child c) else c)"

definition root_with_sign :: "string \<Rightarrow> Element \<Rightarrow> Element" where
  "root_with_sign s r = Element (Tag r) (Text r) (map (child_with_sign s) (Child r))"

definition doc_with_sign :: "string \<Rightarrow> Element \<Rightarrow> Element" where
  "doc_with_sign s d = Element (Tag d) (Text d) (map (root_with_sign s) (Child d))"

subsection \<open>The Canonical Signer\<close>

text \<open>
  Modelled from the spec: the canonical string of the Canonical Signer (spec 4.1), which
  the package calls as \<open>util.SignByMD5\<close> and whose code (package \<open>util\<close> of
  \<open>github.com/medivhzhan/weapp\<close>) is not among the sources. The field names are sorted in
  byte order; every field whose value is not empty gives \<open>name=value&\<close>, a field with an
  empty value gives nothing; \<open>key=\<close> and the secret key come last.
\<close>

definition canonical_string :: "(string \<times> string) list \<Rightarrow> string \<Rightarrow> string" where
  "canonical_string data secretKey =
     concat (map (\<lambda>name. case map_of data name of
                            None \<Rightarrow> []
                          | Some v \<Rightarrow> if v = [] then [] else name @ ''='' @ v @ ''&'')
                 (sort (remdups (map fst data))))
     @ ''key='' @ secretKey"

text \<open>
  Modelled from the spec: the digest rendered as uppercase hexadecimal (spec 4.1), two
  digits for a byte.
\<close>

definition upper_hex :: "8 word list \<Rightarrow> string" where
  "upper_hex bs =
     concat (map (\<lambda>b. [''0123456789ABCDEF'' ! (unat b div 16),
                        ''0123456789ABCDEF'' ! (unat b mod 16)]) bs)"

text \<open>
  Modelled from the spec: \<open>sign(fields, secretKey)\<close> of the Canonical Signer (spec 4.1),
  missing from the sources as \<open>util.SignByMD5\<close>. The digest function (MD5 by default) is a
  parameter, from the canonical string to the bytes of the digest.
\<close>

definition sign :: "(string \<Rightarrow> 8 word list) \<Rightarrow> (string \<times> string) list \<Rightarrow> string \<Rightarrow> string" where
  "sign digest data secretKey = upper_hex (digest (canonical_string data secretKey))"

section \<open>Concrete inputs\<close>

text \<open>A gateway answer, a set of collaborators and an order, for the worked instances below.\<close>

definition demo_response :: paidResponse where
  "demo_response =
     \<lparr>paidResponse.response =
        \<lparr>ReturnCode = ''SUCCESS'', ReturnMsg = ''OK'', ResultCode = ''FAIL'',
         ErrCode = ''ORDERPAID'', ErrCodeDes = ''order already paid''\<rparr>,
      PaidResponse = zero_PaidResponse\<lparr>PrePayID := ''wx201''\<rparr>\<rparr>"

definition demo_env :: util_env where
  "demo_env =
     \<lparr>RandomString = (\<lambda>n. replicate n CHR ''x''),
      FetchIP = Inr ''10.0.0.1'',
      SignByMD5 = (\<lambda>sd k. (''SIG'', None)),
      PostXML = (\<lambda>u od. Inr ''<xml/>''),
      Format = (\<lambda>t l. ''20240229123456''),
      Now_Unix = 1700000000,
      Unmarshal_paidResponse = (\<lambda>b. Inr demo_response)\<rparr>"

definition demo_order :: Order where
  "demo_order =
     \<lparr>Order.AppID = ''wx1'', Order.MchID = ''10000'', Order.TotalFee = 100,
      NotifyURL = ''https://x/cb'', Order.OpenID = ''oUser1'', Body = ''Item'',
      Order.OutTradeNo = ''ON001'', IP = [], NoCredit = True,
      StartedAt = \<lparr>t_sec = 0, t_nsec = 0, t_loc = ''UTC''\<rparr>,
      ExpiredAt = \<lparr>t_sec = 63844800000, t_nsec = 0, t_loc = ''UTC''\<rparr>,
      Order.Tag = [], Detail = ''d'', Order.Attach = []\<rparr>"

text \<open>
  Four notification bodies with what the two parsers make of them, the collaborators of the
  handler, and two decision functions: one accepts everything, one reads \<open>Sign\<close>.
\<close>

definition zero_PaidNotify :: PaidNotify where
  "zero_PaidNotify =
     \<lparr>PaidNotify.AppID = [], PaidNotify.MchID = [], PaidNotify.TotalFee = 0,
      PaidNotify.NonceStr = [], PaidNotify.Sign = [], PaidNotify.SignType = [],
      PaidNotify.OpenID = [], PaidNotify.TradeType = [], Bank = [],
      Settlement = Float64 0, FeeType = [], CashFee = Float64 0, CashFeeType = [],
      PaidNotify.CouponFee = Float64 0, CouponCount = 0, TransactionID = [],
      PaidNotify.Attach = [], IsSubscribe = [], PaidNotify.OutTradeNo = [], Timeend = [],
      Coupons = []\<rparr>"

definition demo_body :: string where
  "demo_body = ''<xml><return_code>SUCCESS</return_code><result_code>SUCCESS</result_code>'' @
     ''<coupon_count>2</coupon_count><coupon_id_0>A</coupon_id_0><coupon_fee_0>100</coupon_fee_0>'' @
     ''<coupon_id_1>B</coupon_id_1><coupon_fee_1>50</coupon_fee_1><sign>VALID</sign></xml>''"

definition demo_ntf :: paidNotify where
  "demo_ntf =
     \<lparr>paidNotify.response =
        \<lparr>ReturnCode = ''SUCCESS'', ReturnMsg = [], ResultCode = ''SUCCESS'', ErrCode = [],
         ErrCodeDes = []\<rparr>,
      PaidNotify = zero_PaidNotify\<lparr>PaidNotify.Sign := ''VALID'', CouponCount := 2\<rparr>\<rparr>"

definition demo_doc :: Element where
  "demo_doc =
     Element [] []
       [Element ''xml'' []
          [Element ''return_code'' ''SUCCESS'' [],
           Element ''result_code'' ''SUCCESS'' [],
           Element ''coupon_count'' ''2'' [],
           Element ''coupon_id_0'' ''A'' [],
           Element ''coupon_fee_0'' ''100'' [],
           Element ''coupon_id_1'' ''B'' [],
           Element ''coupon_fee_1'' ''50'' [],
           Element ''sign'' ''VALID'' []]]"

definition forged_body :: string where
  "forged_body = ''<xml><return_code>SUCCESS</return_code><result_code>SUCCESS</result_code>'' @
     ''<coupon_count>2</coupon_count><coupon_id_0>A</coupon_id_0><coupon_fee_0>100</coupon_fee_0>'' @
     ''<coupon_id_1>B</coupon_id_1><coupon_fee_1>50</coupon_fee_1><sign>FORGED</sign></xml>''"

definition forged_ntf :: paidNotify where
  "forged_ntf =
     \<lparr>paidNotify.response =
        \<lparr>ReturnCode = ''SUCCESS'', ReturnMsg = [], ResultCode = ''SUCCESS'', ErrCode = [],
         ErrCodeDes = []\<rparr>,
      PaidNotify = zero_PaidNotify\<lparr>PaidNotify.Sign := ''FORGED'', CouponCount := 2\<rparr>\<rparr>"

definition forged_doc :: Element where
  "forged_doc =
     Element [] []
       [Element ''xml'' []
          [Element ''return_code'' ''SUCCESS'' [],
           Element ''result_code'' ''SUCCESS'' [],
           Element ''coupon_count'' ''2'' [],
           Element ''coupon_id_0'' ''A'' [],
           Element ''coupon_fee_0'' ''100'' [],
           Element ''coupon_id_1'' ''B'' [],
           Element ''coupon_fee_1'' ''50'' [],
           Element ''sign'' ''FORGED'' []]]"

definition truncated_body :: string where
  "truncated_body = ''<xml><return_code>SUCCESS</return_code><result_code>SUCCESS</result_code>'' @
     ''<coupon_count>1</coupon_count></xml>''"

definition truncated_ntf :: paidNotify where
  "truncated_ntf =
     \<lparr>paidNotify.response =
        \<lparr>ReturnCode = ''SUCCESS'', ReturnMsg = [], ResultCode = ''SUCCESS'', ErrCode = [],
         ErrCodeDes = []\<rparr>,
      PaidNotify = zero_PaidNotify\<lparr>CouponCount := 1\<rparr>\<rparr>"

definition truncated_doc :: Element where
  "truncated_doc =
     Element [] []
       [Element ''xml'' []
          [Element ''return_code'' ''SUCCESS'' [],
           Element ''result_code'' ''SUCCESS'' [],
           Element ''coupon_count'' ''1'' []]]"

definition failed_body :: string where
  "failed_body = ''<xml><return_code>FAIL</return_code><return_msg>down</return_msg>'' @
     ''<coupon_count>1</coupon_count></xml>''"

definition failed_ntf :: paidNotify where
  "failed_ntf =
     \<lparr>paidNotify.response =
        \<lparr>ReturnCode = ''FAIL'', ReturnMsg = ''down'', ResultCode = [], ErrCode = [],
         ErrCodeDes = []\<rparr>,
      PaidNotify = zero_PaidNotify\<lparr>CouponCount := 1\<rparr>\<rparr>"

definition failed_doc :: Element where
  "failed_doc =
     Element [] []
       [Element ''xml'' []
          [Element ''return_code'' ''FAIL'' [],
           Element ''return_msg'' ''down'' [],
           Element ''coupon_count'' ''1'' []]]"

definition demo_notify_env :: notify_env where
  "demo_notify_env =
     \<lparr>Unmarshal_paidNotify =
        (\<lambda>b. if b = demo_body then Inr demo_ntf
             else if b = forged_body then Inr forged_ntf
             else if b = truncated_body then Inr truncated_ntf
             else if b = failed_body then Inr failed_ntf
             else Inl (External ''EOF'')),
      ReadFromBytes =
        (\<lambda>b. if b = demo_body then Inr demo_doc
             else if b = forged_body then Inr forged_doc
             else if b = truncated_body then Inr truncated_doc
             else if b = failed_body then Inr failed_doc
             else Inl (External ''EOF'')),
      Marshal_replay =
        (\<lambda>r. Inr (''<replay><return_code>'' @ Code r @ ''</return_code><return_msg>'' @ Msg r @
                   ''</return_msg></replay>'')),
      Write_error = (\<lambda>b. None)\<rparr>"

definition accept_all :: "PaidNotify \<Rightarrow> bool \<times> string" where
  "accept_all n = (True, [])"

definition accept_signed :: "PaidNotify \<Rightarrow> bool \<times> string" where
  "accept_signed n = (if PaidNotify.Sign n = ''VALID'' then (True, []) else (False, ''bad sign''))"

section \<open>The two-tier status check\<close>

lemma Check_cases:
  "Check r =
     (if ReturnCode r \<noteq> ''SUCCESS'' then Some (ErrorsNew (msg_trade_failed @ ReturnMsg r))
      else if ResultCode r \<noteq> ''SUCCESS''
        then Some (ErrorsNew (msg_error_occurred @ ErrCodeDes r))
      else None)"
  by (simp add: Check_def)

lemma Check_transport_tier_first:
  "ReturnCode r \<noteq> ''SUCCESS'' \<Longrightarrow>
     Check (r\<lparr>ResultCode := a, ErrCode := b, ErrCodeDes := c\<rparr>) = Check r"
  by (simp add: Check_def)

text \<open>
  C2, as the claim states it, fails: the error of the business tier does not carry
  \<open>ErrCode\<close>. Two answers that pass the transport tier, fail the business tier with the
  same \<open>ErrCodeDes\<close> and differ in \<open>ErrCode\<close> give the same error, whose text is the
  prefix of the business tier followed by \<open>ErrCodeDes\<close> alone.
\<close>

theorem Check_business_error_drops_ErrCode:
  "Check \<lparr>ReturnCode = ''SUCCESS'', ReturnMsg = [], ResultCode = ''FAIL'',
          ErrCode = ''ORDERPAID'', ErrCodeDes = ''failed''\<rparr>
     = Some (ErrorsNew (msg_error_occurred @ ''failed''))
   \<and> Check \<lparr>ReturnCode = ''SUCCESS'', ReturnMsg = [], ResultCode = ''FAIL'',
          ErrCode = ''SYSTEMERROR'', ErrCodeDes = ''failed''\<rparr>
     = Some (ErrorsNew (msg_error_occurred @ ''failed''))"
  by (simp add: Check_def)

text \<open>
  C2, amended. For every gateway answer that \<open>Unify\<close> decodes, the error \<open>Unify\<close> returns
  is the one \<open>Check\<close> gives, and \<open>Check\<close> looks at the transport tier first: when
  \<open>ReturnCode\<close> is not \<open>SUCCESS\<close> the error carries \<open>ReturnMsg\<close> and is the same whatever
  \<open>ResultCode\<close>, \<open>ErrCode\<close> and \<open>ErrCodeDes\<close> hold; else when \<open>ResultCode\<close> is not
  \<open>SUCCESS\<close> the error carries \<open>ErrCodeDes\<close> (and not \<open>ErrCode\<close>); else \<open>Unify\<close> returns
  the embedded \<open>PaidResponse\<close> and no error.
\<close>

theorem Unify_two_tier_check:
  assumes prep: "snd (fst (prepare env odr key)) = None"
    and post: "PostXML env (baseURL @ unifyAPI) (fst (fst (prepare env odr key))) = Inr data"
    and dec: "Unmarshal_paidResponse env data = Inr res"
  shows "snd (fst (Unify env odr key)) = Check (paidResponse.response res)
     \<and> fst (Unify env odr key) =
         (if ReturnCode (paidResponse.response res) \<noteq> ''SUCCESS''
          then (zero_PaidResponse,
                Some (ErrorsNew (msg_trade_failed @ ReturnMsg (paidResponse.response res))))
          else if ResultCode (paidResponse.response res) \<noteq> ''SUCCESS''
          then (zero_PaidResponse,
                Some (ErrorsNew (msg_error_occurred @ ErrCodeDes (paidResponse.response res))))
          else (PaidResponse res, None))
     \<and> (ReturnCode (paidResponse.response res) \<noteq> ''SUCCESS'' \<longrightarrow>
          Check ((paidResponse.response res)\<lparr>ResultCode := a, ErrCode := b, ErrCodeDes := c\<rparr>)
            = Check (paidResponse.response res))"
proof -
  obtain reqData tr where p: "prepare env odr key = ((reqData, None), tr)"
    using prep by (metis prod.collapse)
  have post': "PostXML env (baseURL @ unifyAPI) reqData = Inr data"
    using post p by simp
  have u: "fst (Unify env odr key) =
      (case Check (paidResponse.response res) of
         Some err \<Rightarrow> (zero_PaidResponse, Some err)
       | None \<Rightarrow> (PaidResponse res, None))"
    by (simp add: Unify_def p post' dec Let_def split: option.splits)
  have e: "snd (fst (Unify env odr key)) = Check (paidResponse.response res)"
    by (simp add: u split: option.splits)
  have v: "fst (Unify env odr key) =
         (if ReturnCode (paidResponse.response res) \<noteq> ''SUCCESS''
          then (zero_PaidResponse,
                Some (ErrorsNew (msg_trade_failed @ ReturnMsg (paidResponse.response res))))
          else if ResultCode (paidResponse.response res) \<noteq> ''SUCCESS''
          then (zero_PaidResponse,
                Some (ErrorsNew (msg_error_occurred @ ErrCodeDes (paidResponse.response res))))
          else (PaidResponse res, None))"
    by (simp add: u Check_cases)
  show ?thesis
    using e v Check_transport_tier_first by blast
qed

theorem Unify_two_tier_check_witness:
  "fst (Unify demo_env demo_order ''k'') =
     (zero_PaidResponse, Some (ErrorsNew (msg_error_occurred @ ''order already paid'')))"
proof -
  have prep: "snd (fst (prepare demo_env demo_order ''k'')) = None"
    by (simp add: prepare_def demo_env_def demo_order_def Let_def IsZero_def
        optional_fields_def)
  have post: "PostXML demo_env (baseURL @ unifyAPI) (fst (fst (prepare demo_env demo_order ''k'')))
      = Inr ''<xml/>''"
    by (simp add: demo_env_def)
  have dec: "Unmarshal_paidResponse demo_env ''<xml/>'' = Inr demo_response"
    by (simp add: demo_env_def)
  show ?thesis
    using Unify_two_tier_check [OF prep post dec] by (simp add: demo_response_def)
qed

section \<open>Order assembly\<close>

lemma map_of_update: "map_of (AList.update k v al) k' = (if k' = k then Some v else map_of al k')"
  by (simp add: update_conv')

lemma optional_fields_map:
  "map_of (snd (optional_fields env odr od sd)) =
     (map_of sd ++
       (\<lambda>k. if k = ''time_start'' \<and> \<not> IsZero (StartedAt odr) then Some (Format env (StartedAt odr) paymentTimeFormat)
            else if k = ''time_expire'' \<and> \<not> IsZero (ExpiredAt odr) then Some (Format env (ExpiredAt odr) paymentTimeFormat)
            else if k = ''attach'' \<and> Order.Attach odr \<noteq> [] then Some (Order.Attach (Order od))
            else if k = ''detail'' \<and> Detail odr \<noteq> [] then Some (Detail (Order od))
            else if k = ''goods_tag'' \<and> Order.Tag odr \<noteq> [] then Some (Order.Tag (Order od))
            else if k = ''limit_pay'' \<and> NoCredit odr then Some ''no_credit''
            else None))"
  apply (rule ext)
  apply (cases "IsZero (StartedAt odr)"; cases "IsZero (ExpiredAt odr)";
      cases "Order.Attach odr = []"; cases "Detail odr = []"; cases "Order.Tag odr = []"; cases "NoCredit odr")
  apply (simp_all add: optional_fields_def Let_def map_of_update map_add_def)
  done

lemma prepare_abort:
  assumes "IP odr = []" and "FetchIP env = Inl err"
  shows "snd (fst (prepare env odr key)) = Some err"
    and "order.Sign (fst (fst (prepare env odr key))) = []"
    and "snd (prepare env odr key) = [CallRandomString 32, CallFetchIP]"
  using assms by (simp_all add: prepare_def Let_def)


lemma prepare_events:
  assumes "IP odr = [] \<longrightarrow> FetchIP env = Inr ip" and "IP odr \<noteq> [] \<longrightarrow> ip = IP odr"
  shows "snd (prepare env odr key) =
     CallRandomString 32 # (if IP odr = [] then [CallFetchIP] else []) @
     [CallSignByMD5
        (snd (optional_fields env odr
           \<lparr>Order = odr\<lparr>IP := ip\<rparr>, order.Sign = [], order.NonceStr = RandomString env 32,
            order.TradeType = ''JSAPI'', order.SignType = ''MD5'',
            NoCredit_s = [], StartedAt_s = [], ExpiredAt_s = []\<rparr>
           (AList.update ''spbill_create_ip'' ip
             [(''appid'', Order.AppID odr),
              (''body'', Body odr),
              (''mch_id'', Order.MchID odr),
              (''nonce_str'', RandomString env 32),
              (''notify_url'', NotifyURL odr),
              (''openid'', Order.OpenID odr),
              (''out_trade_no'', Order.OutTradeNo odr),
              (''total_fee'', Itoa (Order.TotalFee odr)),
              (''trade_type'', ''JSAPI''),
              (''sign_type'', ''MD5'')]))) key]"
proof (cases "IP odr = []")
  case True
  then have f: "FetchIP env = Inr ip" using assms by simp
  show ?thesis
    using True
    by (simp add: prepare_def Let_def f case_prod_beta split: option.splits)
next
  case False
  then have ip: "ip = IP odr" using assms by simp
  show ?thesis
    using False
    by (simp add: prepare_def Let_def ip case_prod_beta split: option.splits)
qed

lemma prepare_signed_lookup:
  assumes "IP odr = [] \<longrightarrow> FetchIP env = Inr ip" and "IP odr \<noteq> [] \<longrightarrow> ip = IP odr"
  shows "map (\<lambda>sd. map_of sd k) (signed_fields (snd (prepare env odr key))) =
     [if k = ''time_start'' \<and> \<not> IsZero (StartedAt odr)
        then Some (Format env (StartedAt odr) paymentTimeFormat)
      else if k = ''time_expire'' \<and> \<not> IsZero (ExpiredAt odr)
        then Some (Format env (ExpiredAt odr) paymentTimeFormat)
      else if k = ''attach'' \<and> Order.Attach odr \<noteq> [] then Some (Order.Attach odr)
      else if k = ''detail'' \<and> Detail odr \<noteq> [] then Some (Detail odr)
      else if k = ''goods_tag'' \<and> Order.Tag odr \<noteq> [] then Some (Order.Tag odr)
      else if k = ''limit_pay'' \<and> NoCredit odr then Some ''no_credit''
      else if k = ''spbill_create_ip'' then Some ip
      else map_of
        [(''appid'', Order.AppID odr),
         (''body'', Body odr),
         (''mch_id'', Order.MchID odr),
         (''nonce_str'', RandomString env 32),
         (''notify_url'', NotifyURL odr),
         (''openid'', Order.OpenID odr),
         (''out_trade_no'', Order.OutTradeNo odr),
         (''total_fee'', Itoa (Order.TotalFee odr)),
         (''trade_type'', ''JSAPI''),
         (''sign_type'', ''MD5'')] k]"
  by (simp add: prepare_events [OF assms] optional_fields_map map_add_def update_conv'
      del: map_of.simps AList.update.simps)

text \<open>
  C3. When assembly reaches the signer, the signed field set holds \<open>time_start\<close> and
  \<open>time_expire\<close> exactly when the time is not the zero time (with the time formatted by
  the layout \<open>20060102150405\<close>), \<open>attach\<close>, \<open>detail\<close> and \<open>goods_tag\<close> exactly when the
  string is not empty, and \<open>limit_pay\<close>, with the value \<open>no_credit\<close>, exactly when
  \<open>NoCredit\<close> is set.
\<close>

theorem prepare_optional_fields:
  assumes "\<not> (IP odr = [] \<and> isl (FetchIP env))"
  shows "map (\<lambda>sd. (map_of sd ''time_start'', map_of sd ''time_expire'', map_of sd ''attach'',
                    map_of sd ''detail'', map_of sd ''goods_tag'', map_of sd ''limit_pay''))
           (signed_fields (snd (prepare env odr key))) =
         [(if IsZero (StartedAt odr) then None
             else Some (Format env (StartedAt odr) ''20060102150405''),
           if IsZero (ExpiredAt odr) then None
             else Some (Format env (ExpiredAt odr) ''20060102150405''),
           if Order.Attach odr = [] then None else Some (Order.Attach odr),
           if Detail odr = [] then None else Some (Detail odr),
           if Order.Tag odr = [] then None else Some (Order.Tag odr),
           if NoCredit odr then Some ''no_credit'' else None)]"
proof -
  define ip where "ip = (if IP odr = [] then projr (FetchIP env) else IP odr)"
  have a: "IP odr = [] \<longrightarrow> FetchIP env = Inr ip"
    using assms by (cases "FetchIP env") (simp_all add: ip_def)
  have b: "IP odr \<noteq> [] \<longrightarrow> ip = IP odr"
    by (simp add: ip_def)
  obtain sd where sd: "signed_fields (snd (prepare env odr key)) = [sd]"
    by (simp add: prepare_events [OF a b])
  have l: "map_of sd k =
      hd (map (\<lambda>sd. map_of sd k) (signed_fields (snd (prepare env odr key))))" for k
    by (simp add: sd)
  show ?thesis
    unfolding sd
    by (simp add: l prepare_signed_lookup [OF a b] paymentTimeFormat_def)
qed

theorem prepare_optional_fields_witness:
  "map (\<lambda>sd. (map_of sd ''time_start'', map_of sd ''time_expire'', map_of sd ''attach'',
              map_of sd ''detail'', map_of sd ''goods_tag'', map_of sd ''limit_pay''))
     (signed_fields (snd (prepare demo_env demo_order ''k''))) =
   [(None, Some ''20240229123456'', None, Some ''d'', None, Some ''no_credit'')]"
proof -
  have h: "\<not> (IP demo_order = [] \<and> isl (FetchIP demo_env))"
    by (simp add: demo_env_def)
  show ?thesis
    using prepare_optional_fields [OF h, of "''k''"]
    by (simp add: demo_env_def demo_order_def IsZero_def)
qed

text \<open>
  C8. \<open>util.FetchIP\<close> is called once when the order's \<open>IP\<close> is empty and not at all
  otherwise. When it fails, \<open>prepare\<close> returns its error, the signer is never called and
  the returned order has an empty \<open>Sign\<close>. Otherwise the address found, or the one the
  caller gave, is the value of \<open>spbill_create_ip\<close> in the signed field set.
\<close>

theorem prepare_ip_resolution:
  "count_list (snd (prepare env odr key)) CallFetchIP = (if IP odr = [] then 1 else 0)
   \<and> (IP odr = [] \<and> FetchIP env = Inl err \<longrightarrow>
        snd (fst (prepare env odr key)) = Some err
        \<and> order.Sign (fst (fst (prepare env odr key))) = []
        \<and> signed_fields (snd (prepare env odr key)) = [])
   \<and> (IP odr = [] \<and> FetchIP env = Inr ip \<longrightarrow>
        map (\<lambda>sd. map_of sd ''spbill_create_ip'') (signed_fields (snd (prepare env odr key)))
          = [Some ip])
   \<and> (IP odr \<noteq> [] \<longrightarrow>
        map (\<lambda>sd. map_of sd ''spbill_create_ip'') (signed_fields (snd (prepare env odr key)))
          = [Some (IP odr)])"
proof -
  have c: "count_list (snd (prepare env odr key)) CallFetchIP = (if IP odr = [] then 1 else 0)"
  proof (cases "IP odr = [] \<and> isl (FetchIP env)")
    case True
    then obtain e where "FetchIP env = Inl e" by (cases "FetchIP env") simp_all
    with True show ?thesis by (simp add: prepare_abort)
  next
    case False
    define ip' where "ip' = (if IP odr = [] then projr (FetchIP env) else IP odr)"
    have a: "IP odr = [] \<longrightarrow> FetchIP env = Inr ip'"
      using False by (cases "FetchIP env") (simp_all add: ip'_def)
    have b: "IP odr \<noteq> [] \<longrightarrow> ip' = IP odr"
      by (simp add: ip'_def)
    show ?thesis by (simp add: prepare_events [OF a b])
  qed
  have f: "IP odr = [] \<and> FetchIP env = Inl err \<longrightarrow>
        snd (fst (prepare env odr key)) = Some err
        \<and> order.Sign (fst (fst (prepare env odr key))) = []
        \<and> signed_fields (snd (prepare env odr key)) = []"
    by (simp add: prepare_abort)
  have r: "IP odr = [] \<and> FetchIP env = Inr ip \<longrightarrow>
        map (\<lambda>sd. map_of sd ''spbill_create_ip'') (signed_fields (snd (prepare env odr key)))
          = [Some ip]"
    by (simp add: prepare_signed_lookup [of odr env ip])
  have g: "IP odr \<noteq> [] \<longrightarrow>
        map (\<lambda>sd. map_of sd ''spbill_create_ip'') (signed_fields (snd (prepare env odr key)))
          = [Some (IP odr)]"
    by (simp add: prepare_signed_lookup [of odr env "IP odr"])
  show ?thesis using c f r g by blast
qed

theorem prepare_ip_resolution_witness:
  "count_list (snd (prepare (demo_env\<lparr>FetchIP := Inl (External ''no route'')\<rparr>) demo_order ''k''))
      CallFetchIP = 1
   \<and> snd (fst (prepare (demo_env\<lparr>FetchIP := Inl (External ''no route'')\<rparr>) demo_order ''k''))
      = Some (External ''no route'')
   \<and> order.Sign (fst (fst (prepare (demo_env\<lparr>FetchIP := Inl (External ''no route'')\<rparr>)
        demo_order ''k''))) = []
   \<and> map (\<lambda>sd. map_of sd ''spbill_create_ip'') (signed_fields (snd (prepare demo_env demo_order ''k'')))
      = [Some ''10.0.0.1'']
   \<and> count_list (snd (prepare demo_env (demo_order\<lparr>IP := ''192.0.2.7''\<rparr>) ''k'')) CallFetchIP = 0
   \<and> map (\<lambda>sd. map_of sd ''spbill_create_ip'')
        (signed_fields (snd (prepare demo_env (demo_order\<lparr>IP := ''192.0.2.7''\<rparr>) ''k'')))
      = [Some ''192.0.2.7'']"
  using prepare_ip_resolution [of "demo_env\<lparr>FetchIP := Inl (External ''no route'')\<rparr>" demo_order
      "''k''" "External ''no route''" "[]"]
    prepare_ip_resolution [of demo_env demo_order "''k''" "External ''x''" "''10.0.0.1''"]
    prepare_ip_resolution [of demo_env "demo_order\<lparr>IP := ''192.0.2.7''\<rparr>" "''k''"
      "External ''x''" "[]"]
  by (simp add: demo_env_def demo_order_def)

section \<open>Client parameters\<close>

text \<open>
  C7. \<open>GetParams\<close> fails, with the error of the nonce check, for every nonce of more
  than 32 bytes, and makes no call. For a nonce of at most 32 bytes it reads the clock,
  calls the signer once, over exactly the five fields \<open>appId\<close>, \<open>signType\<close>, \<open>nonceStr\<close>,
  \<open>package\<close> and \<open>timeStamp\<close>, and returns the signer's error (none, when the signer
  reports none) with \<open>SignType\<close> \<open>MD5\<close>, \<open>Package\<close> the text \<open>prepay_id=\<close> followed by the
  prepay id, the clock's Unix seconds in decimal as \<open>Timestamp\<close>, and the signature.
\<close>

theorem GetParams_nonce_check_and_fields:
  "(32 < length nonceStr \<longrightarrow>
      GetParams env appID key nonceStr prepayID =
        ((zero_Params, Some (ErrorsNew msg_nonce_too_long)), []))
   \<and> (length nonceStr \<le> 32 \<longrightarrow>
      (let signData =
             [(''appId'', appID),
              (''signType'', ''MD5''),
              (''nonceStr'', nonceStr),
              (''package'', ''prepay_id='' @ prepayID),
              (''timeStamp'', FormatInt10 (Now_Unix env))]
       in GetParams env appID key nonceStr prepayID =
            ((\<lparr>Timestamp = FormatInt10 (Now_Unix env),
               Params.NonceStr = nonceStr,
               Params.SignType = ''MD5'',
               PaySign = fst (SignByMD5 env signData key),
               Package = ''prepay_id='' @ prepayID\<rparr>,
              snd (SignByMD5 env signData key)),
             [CallNow, CallSignByMD5 signData key])))"
  by (simp add: GetParams_def Let_def zero_Params_def case_prod_beta)

theorem GetParams_nonce_check_and_fields_witness:
  "GetParams demo_env ''wx1'' ''k'' ''0123456789abcdef0123456789abcdefX'' ''wx201'' =
     ((zero_Params, Some (ErrorsNew msg_nonce_too_long)), [])
   \<and> GetParams demo_env ''wx1'' ''k'' ''0123456789abcdef0123456789abcdef'' ''wx201'' =
     ((\<lparr>Timestamp = ''1700000000'',
        Params.NonceStr = ''0123456789abcdef0123456789abcdef'',
        Params.SignType = ''MD5'',
        PaySign = ''SIG'',
        Package = ''prepay_id=wx201''\<rparr>, None),
      [CallNow,
       CallSignByMD5
         [(''appId'', ''wx1''),
          (''signType'', ''MD5''),
          (''nonceStr'', ''0123456789abcdef0123456789abcdef''),
          (''package'', ''prepay_id=wx201''),
          (''timeStamp'', ''1700000000'')] ''k''])"
  using GetParams_nonce_check_and_fields
      [of "''0123456789abcdef0123456789abcdefX''" demo_env "''wx1''" "''k''" "''wx201''"]
    GetParams_nonce_check_and_fields
      [of "''0123456789abcdef0123456789abcdef''" demo_env "''wx1''" "''k''" "''wx201''"]
  by (simp add: demo_env_def FormatInt10_def Let_def)

section \<open>Reading integers\<close>

lemma digit_char: "k < 10 \<Longrightarrow> is_digit (''0123456789'' ! k) \<and> digit_val (''0123456789'' ! k) = k"
proof -
  assume "k < 10"
  then have "k = 0 \<or> k = 1 \<or> k = 2 \<or> k = 3 \<or> k = 4 \<or> k = 5 \<or> k = 6 \<or> k = 7 \<or> k = 8 \<or> k = 9"
    by arith
  then show ?thesis
    by (elim disjE) (simp_all add: is_digit_def digit_val_def)
qed

lemma ParseUint_loop_append:
  "ParseUint_loop (xs @ ys) a =
     (case ParseUint_loop xs a of
        (v, None) \<Rightarrow> ParseUint_loop ys v
      | (v, Some e) \<Rightarrow> (v, Some e))"
  by (induction xs arbitrary: a) simp_all

lemma ParseUint_loop_dec_digits:
  "n \<le> 18446744073709551615 \<Longrightarrow> ParseUint_loop (dec_digits n) 0 = (n, None)"
proof (induction n rule: dec_digits.induct)
  case (1 n)
  show ?case
  proof (cases "n < 10")
    case True
    then show ?thesis
      using digit_char [of n] by (subst dec_digits.simps) simp
  next
    case False
    have small: "n div 10 \<le> 18446744073709551615" using "1.prems" by linarith
    have ih: "ParseUint_loop (dec_digits (n div 10)) 0 = (n div 10, None)"
      using "1.IH" False small by simp
    have d: "is_digit (''0123456789'' ! (n mod 10))"
      "digit_val (''0123456789'' ! (n mod 10)) = n mod 10"
      using digit_char [of "n mod 10"] by simp_all
    have c: "\<not> 1844674407370955162 \<le> n div 10" using "1.prems" by linarith
    have e: "n div 10 * 10 + n mod 10 = n" by simp
    show ?thesis
      using False "1.prems"
      by (subst dec_digits.simps) (simp add: ParseUint_loop_append ih d c e del: dec_digits.simps)
  qed
qed

lemma dec_digits_nonempty: "dec_digits n \<noteq> []"
  by (subst dec_digits.simps) simp

lemma hd_dec_digits_digit: "is_digit (hd (dec_digits n))"
proof (induction n rule: dec_digits.induct)
  case (1 n)
  show ?case
  proof (cases "n < 10")
    case True
    then show ?thesis using digit_char [of n] by (subst dec_digits.simps) simp
  next
    case False
    then show ?thesis
      using "1.IH" dec_digits_nonempty [of "n div 10"]
      by (subst dec_digits.simps) (simp del: dec_digits.simps)
  qed
qed

lemma is_digit_not_sign: "is_digit c \<Longrightarrow> c \<noteq> CHR ''+'' \<and> c \<noteq> CHR ''-''"
  by (auto simp: is_digit_def)

lemma ParseInt_FormatInt10:
  assumes "- 9223372036854775808 \<le> v" and "v \<le> 9223372036854775807"
  shows "ParseInt (FormatInt10 v) = (v, None)"
proof (cases "v < 0")
  case True
  have n: "nat (- v) \<le> 18446744073709551615" using assms by linarith
  have u: "ParseUint (dec_digits (nat (- v))) = (nat (- v), None)"
    by (simp add: ParseUint_def dec_digits_nonempty ParseUint_loop_dec_digits [OF n]
        del: dec_digits.simps)
  show ?thesis
    using True assms
    by (simp add: ParseInt_def FormatInt10_def u Let_def del: dec_digits.simps)
next
  case False
  have n: "nat v \<le> 18446744073709551615" using assms by linarith
  have u: "ParseUint (dec_digits (nat v)) = (nat v, None)"
    by (simp add: ParseUint_def dec_digits_nonempty ParseUint_loop_dec_digits [OF n]
        del: dec_digits.simps)
  have h: "hd (dec_digits (nat v)) \<noteq> CHR ''+''" "hd (dec_digits (nat v)) \<noteq> CHR ''-''"
    using is_digit_not_sign [OF hd_dec_digits_digit [of "nat v"]] by simp_all
  show ?thesis
    using False assms
    by (simp add: ParseInt_def FormatInt10_def u h Let_def dec_digits_nonempty
        del: dec_digits.simps)
qed

lemma ParseInt_syntax_error: "snd (ParseInt t) = Some ErrSyntax \<Longrightarrow> fst (ParseInt t) = 0"
  by (auto simp: ParseInt_def Let_def case_prod_beta split: if_splits)

lemma ParseInt_range_error:
  "snd (ParseInt t) = Some ErrRange \<Longrightarrow>
     fst (ParseInt t) = (if take 1 t = ''-'' then - 9223372036854775808 else 9223372036854775807)"
  by (cases t) (auto simp: ParseInt_def Let_def case_prod_beta split: if_splits)

section \<open>Notifications\<close>

lemma Sprintf_coupon_names:
  "Sprintf ''coupon_id_%d'' [i] = ''coupon_id_'' @ FormatInt10 i"
  "Sprintf ''coupon_fee_%d'' [i] = ''coupon_fee_'' @ FormatInt10 i"
  by simp_all

lemma NewCouponResponseModel_present:
  assumes "SelectElement root (''coupon_id_'' @ FormatInt10 i) = Some idElem"
    and "SelectElement root (''coupon_fee_'' @ FormatInt10 i) = Some feeElem"
  shows "NewCouponResponseModel (Some root) ''coupon_id_%d'' ''coupon_fee_%d'' [i] =
     Returned \<lparr>CouponId = Text idElem,
               CouponResponseModel.CouponFee = fst (ParseInt (Text feeElem))\<rparr>"
  using assms
  by (simp add: NewCouponResponseModel_def Let_def del: Sprintf.simps add: Sprintf_coupon_names)

lemma NewCouponResponseModel_absent:
  assumes "SelectElement root (''coupon_id_'' @ FormatInt10 i) = None
     \<or> SelectElement root (''coupon_fee_'' @ FormatInt10 i) = None"
  shows "NewCouponResponseModel (Some root) ''coupon_id_%d'' ''coupon_fee_%d'' [i] = Panicked"
  using assms
  by (auto simp add: NewCouponResponseModel_def Let_def Sprintf_coupon_names
      simp del: Sprintf.simps split: option.splits)

lemma coupon_loop_present:
  assumes "\<forall>j. i \<le> j \<and> j < count \<longrightarrow>
      SelectElement root (''coupon_id_'' @ FormatInt10 j) = Some (ids j)
      \<and> SelectElement root (''coupon_fee_'' @ FormatInt10 j) = Some (fees j)"
  shows "coupon_loop (Some root) count i acc =
     Returned (acc @ map (\<lambda>j. \<lparr>CouponId = Text (ids j),
                               CouponResponseModel.CouponFee = fst (ParseInt (Text (fees j)))\<rparr>)
                      [i..count - 1])"
  using assms
proof (induction "Some root" count i acc rule: coupon_loop.induct)
  case (1 count i acc)
  show ?case
  proof (cases "i < count")
    case True
    have here: "NewCouponResponseModel (Some root) ''coupon_id_%d'' ''coupon_fee_%d'' [i] =
        Returned \<lparr>CouponId = Text (ids i),
                  CouponResponseModel.CouponFee = fst (ParseInt (Text (fees i)))\<rparr>"
      using "1.prems" True by (intro NewCouponResponseModel_present) simp_all
    have rest: "coupon_loop (Some root) count (i + 1)
          (acc @ [\<lparr>CouponId = Text (ids i),
                   CouponResponseModel.CouponFee = fst (ParseInt (Text (fees i)))\<rparr>]) =
        Returned ((acc @ [\<lparr>CouponId = Text (ids i),
                   CouponResponseModel.CouponFee = fst (ParseInt (Text (fees i)))\<rparr>]) @
           map (\<lambda>j. \<lparr>CouponId = Text (ids j),
                     CouponResponseModel.CouponFee = fst (ParseInt (Text (fees j)))\<rparr>)
             [i + 1..count - 1])"
      using "1.prems" by (intro "1.hyps" [OF True here]) simp
    have up: "[i..count - 1] = i # [i + 1..count - 1]"
      using True by (simp add: upto_rec1)
    show ?thesis
      using True by (subst coupon_loop.simps) (simp add: here rest up del: coupon_loop.simps)
  next
    case False
    then show ?thesis by (subst coupon_loop.simps) simp
  qed
qed

text \<open>
  C5. A body that declares \<open>N > 0\<close> coupons and whose \<open>xml\<close> element holds
  \<open>coupon_id_i\<close> and \<open>coupon_fee_i\<close> for every \<open>i\<close> from 0 to \<open>N - 1\<close> is parsed to
  exactly \<open>N\<close> coupon items in index order, the \<open>i\<close>-th pairing the text of \<open>coupon_id_i\<close>
  with the integer \<open>ParseInt\<close> reads from the text of \<open>coupon_fee_i\<close> (the integer
  itself, for every decimal text of an int64), and these items are what the decision
  function receives once the envelope passes the check; a body that declares no coupon
  is parsed to none.
\<close>

theorem HandlePaidNotify_coupons_in_order:
  assumes dec: "Unmarshal_paidNotify env body = Inr ntf"
  shows "(0 < CouponCount (PaidNotify ntf)
          \<and> ReadFromBytes env body = Inr doc
          \<and> SelectElement doc ''xml'' = Some root
          \<and> (\<forall>j. 0 \<le> j \<and> j < CouponCount (PaidNotify ntf) \<longrightarrow>
                SelectElement root (''coupon_id_'' @ Itoa j) = Some (ids j)
                \<and> SelectElement root (''coupon_fee_'' @ Itoa j) = Some (fees j))
          \<longrightarrow>
            (let items =
                   map (\<lambda>j. \<lparr>CouponId = Text (ids j),
                             CouponResponseModel.CouponFee = fst (ParseInt (Text (fees j)))\<rparr>)
                     [0..CouponCount (PaidNotify ntf) - 1]
             in coupon_loop (SelectElement doc ''xml'') (CouponCount (PaidNotify ntf)) 0 []
                  = Returned items
                \<and> int (length items) = CouponCount (PaidNotify ntf)
                \<and> (Check (paidNotify.response ntf) = None \<longrightarrow>
                     decided (snd (HandlePaidNotify env (Inr body) fuck)) =
                       [(PaidNotify ntf)\<lparr>Coupons := items\<rparr>])))
     \<and> (CouponCount (PaidNotify ntf) \<le> 0 \<and> Check (paidNotify.response ntf) = None \<longrightarrow>
          decided (snd (HandlePaidNotify env (Inr body) fuck)) =
            [(PaidNotify ntf)\<lparr>Coupons := []\<rparr>])
     \<and> (- 9223372036854775808 \<le> v \<and> v \<le> 9223372036854775807 \<longrightarrow>
          fst (ParseInt (Itoa v)) = v)"
proof -
  define items where "items =
      map (\<lambda>j. \<lparr>CouponId = Text (ids j),
                CouponResponseModel.CouponFee = fst (ParseInt (Text (fees j)))\<rparr>)
        [0..CouponCount (PaidNotify ntf) - 1]"
  have some: "coupon_loop (SelectElement doc ''xml'') (CouponCount (PaidNotify ntf)) 0 []
                  = Returned items
                \<and> int (length items) = CouponCount (PaidNotify ntf)
                \<and> (Check (paidNotify.response ntf) = None \<longrightarrow>
                     decided (snd (HandlePaidNotify env (Inr body) fuck)) =
                       [(PaidNotify ntf)\<lparr>Coupons := items\<rparr>])"
    if pos: "0 < CouponCount (PaidNotify ntf)"
      and rd: "ReadFromBytes env body = Inr doc"
      and rt: "SelectElement doc ''xml'' = Some root"
      and all: "\<forall>j. 0 \<le> j \<and> j < CouponCount (PaidNotify ntf) \<longrightarrow>
                SelectElement root (''coupon_id_'' @ Itoa j) = Some (ids j)
                \<and> SelectElement root (''coupon_fee_'' @ Itoa j) = Some (fees j)"
  proof -
    have "coupon_loop (Some root) (CouponCount (PaidNotify ntf)) 0 [] = Returned ([] @ items)"
      unfolding items_def using all by (intro coupon_loop_present) (simp add: Itoa_def)
    then have loop: "coupon_loop (SelectElement doc ''xml'') (CouponCount (PaidNotify ntf)) 0 []
        = Returned items"
      by (simp add: rt del: coupon_loop.simps)
    have len: "int (length items) = CouponCount (PaidNotify ntf)"
      using pos by (simp add: items_def)
    have "decided (snd (HandlePaidNotify env (Inr body) fuck)) =
        [(PaidNotify ntf)\<lparr>Coupons := items\<rparr>]"
      if ok: "Check (paidNotify.response ntf) = None"
      using pos loop
      by (simp add: HandlePaidNotify_def Unmarshal_ntf_def dec rd ok Let_def
          del: coupon_loop.simps split: sum.splits)
    then show ?thesis using loop len by blast
  qed
  have none: "CouponCount (PaidNotify ntf) \<le> 0 \<and> Check (paidNotify.response ntf) = None \<longrightarrow>
          decided (snd (HandlePaidNotify env (Inr body) fuck)) =
            [(PaidNotify ntf)\<lparr>Coupons := []\<rparr>]"
    by (simp add: HandlePaidNotify_def Unmarshal_ntf_def dec Let_def
        del: coupon_loop.simps split: sum.splits)
  have val: "- 9223372036854775808 \<le> v \<and> v \<le> 9223372036854775807 \<longrightarrow>
          fst (ParseInt (Itoa v)) = v"
    by (simp add: Itoa_def ParseInt_FormatInt10)
  show ?thesis
    unfolding Let_def items_def [symmetric] using some none val by blast
qed

theorem HandlePaidNotify_coupons_in_order_witness:
  "decided (snd (HandlePaidNotify demo_notify_env (Inr demo_body) accept_all)) =
     [zero_PaidNotify\<lparr>PaidNotify.Sign := ''VALID'', CouponCount := 2,
        Coupons := [\<lparr>CouponId = ''A'', CouponResponseModel.CouponFee = 100\<rparr>,
                    \<lparr>CouponId = ''B'', CouponResponseModel.CouponFee = 50\<rparr>]\<rparr>]"
proof -
  have dec: "Unmarshal_paidNotify demo_notify_env demo_body = Inr demo_ntf"
    by (simp add: demo_notify_env_def)
  have ok: "Check (paidNotify.response demo_ntf) = None"
    by (simp add: demo_ntf_def Check_def)
  have pos: "0 < CouponCount (PaidNotify demo_ntf)"
    by (simp add: demo_ntf_def zero_PaidNotify_def)
  have rd: "ReadFromBytes demo_notify_env demo_body = Inr demo_doc"
    by (simp add: demo_notify_env_def)
  have rt: "SelectElement demo_doc ''xml'' = Some (hd (Child demo_doc))"
    by (simp add: demo_doc_def SelectElement_def)
  have all: "\<forall>j. 0 \<le> j \<and> j < CouponCount (PaidNotify demo_ntf) \<longrightarrow>
      SelectElement (hd (Child demo_doc)) (''coupon_id_'' @ Itoa j)
        = Some ((\<lambda>j. if j = 0 then Element ''coupon_id_0'' ''A'' []
                      else Element ''coupon_id_1'' ''B'' []) j)
      \<and> SelectElement (hd (Child demo_doc)) (''coupon_fee_'' @ Itoa j)
        = Some ((\<lambda>j. if j = 0 then Element ''coupon_fee_0'' ''100'' []
                      else Element ''coupon_fee_1'' ''50'' []) j)"
  proof (intro allI impI)
    fix j :: int
    assume "0 \<le> j \<and> j < CouponCount (PaidNotify demo_ntf)"
    then have "j = 0 \<or> j = 1"
      by (auto simp: demo_ntf_def zero_PaidNotify_def)
    then show "SelectElement (hd (Child demo_doc)) (''coupon_id_'' @ Itoa j)
        = Some ((\<lambda>j. if j = 0 then Element ''coupon_id_0'' ''A'' []
                      else Element ''coupon_id_1'' ''B'' []) j)
      \<and> SelectElement (hd (Child demo_doc)) (''coupon_fee_'' @ Itoa j)
        = Some ((\<lambda>j. if j = 0 then Element ''coupon_fee_0'' ''100'' []
                      else Element ''coupon_fee_1'' ''50'' []) j)"
      by (elim disjE) (simp_all add: demo_doc_def SelectElement_def Itoa_def FormatInt10_def)
  qed
  have up: "[0..(1::int)] = [0, 1]"
    by (simp add: upto.simps)
  have p100: "ParseInt ''100'' = (100, None)" and p50: "ParseInt ''50'' = (50, None)"
    by (simp_all add: ParseInt_def ParseUint_def is_digit_def digit_val_def)
  show ?thesis
    using HandlePaidNotify_coupons_in_order [OF dec, of demo_doc "hd (Child demo_doc)"
        "\<lambda>j. if j = 0 then Element ''coupon_id_0'' ''A'' [] else Element ''coupon_id_1'' ''B'' []"
        "\<lambda>j. if j = 0 then Element ''coupon_fee_0'' ''100'' [] else Element ''coupon_fee_1'' ''50'' []"
        accept_all 0]
      pos rd rt all ok
    by (simp add: demo_ntf_def zero_PaidNotify_def up p100 p50 Let_def del: coupon_loop.simps)
qed

text \<open>
  C10, as the claim states it, fails: a \<open>coupon_fee_0\<close> whose text \<open>ParseInt\<close> rejects
  for its range gives the fee \<open>2^63 - 1\<close>, not 0.
\<close>

theorem coupon_fee_out_of_range_is_clamped:
  "NewCouponResponseModel
     (Some (Element ''xml'' []
        [Element ''coupon_id_0'' ''A'' [],
         Element ''coupon_fee_0'' ''9223372036854775808'' []]))
     ''coupon_id_%d'' ''coupon_fee_%d'' [0]
     = Returned \<lparr>CouponId = ''A'', CouponResponseModel.CouponFee = 9223372036854775807\<rparr>
   \<and> ParseInt ''9223372036854775808'' = (9223372036854775807, Some ErrRange)"
  by (simp add: NewCouponResponseModel_def SelectElement_def FormatInt10_def ParseInt_def
      ParseUint_def is_digit_def digit_val_def)

text \<open>
  C10, amended. When \<open>coupon_id_i\<close> and \<open>coupon_fee_i\<close> are present, the coupon item is
  returned and no error with it, whatever \<open>ParseInt\<close> says of the fee's text: the fee is
  the integer read when there is no error, 0 on a syntax error, and the int64 bound of the
  text's sign on a range error.
\<close>

theorem coupon_fee_parse_error_discarded:
  assumes "SelectElement root (''coupon_id_'' @ Itoa i) = Some idElem"
    and "SelectElement root (''coupon_fee_'' @ Itoa i) = Some feeElem"
  shows "NewCouponResponseModel (Some root) ''coupon_id_%d'' ''coupon_fee_%d'' [i] =
     Returned
       \<lparr>CouponId = Text idElem,
        CouponResponseModel.CouponFee =
          (case snd (ParseInt (Text feeElem)) of
             None \<Rightarrow> fst (ParseInt (Text feeElem))
           | Some ErrSyntax \<Rightarrow> 0
           | Some ErrRange \<Rightarrow>
               (if take 1 (Text feeElem) = ''-'' then - 9223372036854775808
                else 9223372036854775807))\<rparr>"
proof -
  have fee: "fst (ParseInt t) =
      (case snd (ParseInt t) of
         None \<Rightarrow> fst (ParseInt t)
       | Some ErrSyntax \<Rightarrow> 0
       | Some ErrRange \<Rightarrow>
           (if take 1 t = ''-'' then - 9223372036854775808 else 9223372036854775807))" for t
    using ParseInt_syntax_error [of t] ParseInt_range_error [of t]
    by (simp split: option.splits NumError.splits)
  have "NewCouponResponseModel (Some root) ''coupon_id_%d'' ''coupon_fee_%d'' [i] =
     Returned \<lparr>CouponId = Text idElem,
               CouponResponseModel.CouponFee = fst (ParseInt (Text feeElem))\<rparr>"
    using assms by (intro NewCouponResponseModel_present) (simp_all add: Itoa_def)
  then show ?thesis
    using fee [of "Text feeElem"] by simp
qed

theorem coupon_fee_parse_error_discarded_witness:
  "NewCouponResponseModel
     (Some (Element ''xml'' []
        [Element ''coupon_id_0'' ''A'' [], Element ''coupon_fee_0'' ''12x'' []]))
     ''coupon_id_%d'' ''coupon_fee_%d'' [0]
     = Returned \<lparr>CouponId = ''A'', CouponResponseModel.CouponFee = 0\<rparr>
   \<and> NewCouponResponseModel
     (Some (Element ''xml'' []
        [Element ''coupon_id_0'' ''A'' [],
         Element ''coupon_fee_0'' ''-9223372036854775809'' []]))
     ''coupon_id_%d'' ''coupon_fee_%d'' [0]
     = Returned \<lparr>CouponId = ''A'', CouponResponseModel.CouponFee = - 9223372036854775808\<rparr>"
proof -
  have a: "SelectElement (Element ''xml'' []
        [Element ''coupon_id_0'' ''A'' [], Element ''coupon_fee_0'' ''12x'' []])
        (''coupon_id_'' @ Itoa 0) = Some (Element ''coupon_id_0'' ''A'' [])"
    and b: "SelectElement (Element ''xml'' []
        [Element ''coupon_id_0'' ''A'' [], Element ''coupon_fee_0'' ''12x'' []])
        (''coupon_fee_'' @ Itoa 0) = Some (Element ''coupon_fee_0'' ''12x'' [])"
    and c: "SelectElement (Element ''xml'' []
        [Element ''coupon_id_0'' ''A'' [], Element ''coupon_fee_0'' ''-9223372036854775809'' []])
        (''coupon_id_'' @ Itoa 0) = Some (Element ''coupon_id_0'' ''A'' [])"
    and d: "SelectElement (Element ''xml'' []
        [Element ''coupon_id_0'' ''A'' [], Element ''coupon_fee_0'' ''-9223372036854775809'' []])
        (''coupon_fee_'' @ Itoa 0) = Some (Element ''coupon_fee_0'' ''-9223372036854775809'' [])"
    by (simp_all add: SelectElement_def Itoa_def FormatInt10_def)
  have p: "ParseInt ''12x'' = (0, Some ErrSyntax)"
    and q: "ParseInt ''-9223372036854775809'' = (- 9223372036854775808, Some ErrRange)"
    by (simp_all add: ParseInt_def ParseUint_def is_digit_def digit_val_def)
  show ?thesis
    using coupon_fee_parse_error_discarded [OF a b] coupon_fee_parse_error_discarded [OF c d]
    by (simp add: p q del: Sprintf.simps)
qed

lemma coupon_loop_absent:
  assumes "i0 \<le> i" and "i < count"
    and "SelectElement root (''coupon_id_'' @ FormatInt10 i) = None
       \<or> SelectElement root (''coupon_fee_'' @ FormatInt10 i) = None"
  shows "coupon_loop (Some root) count i0 acc = Panicked"
  using assms
proof (induction "Some root" count i0 acc rule: coupon_loop.induct)
  case (1 count i0 acc)
  have lt: "i0 < count" using "1.prems" by simp
  show ?case
  proof (cases "NewCouponResponseModel (Some root) ''coupon_id_%d'' ''coupon_fee_%d'' [i0]")
    case Panicked
    then show ?thesis
      using lt by (subst coupon_loop.simps) (simp del: coupon_loop.simps)
  next
    case (Returned m)
    have "i0 \<noteq> i"
      using Returned NewCouponResponseModel_absent [of root i0] "1.prems"(3) by auto
    then have next_le: "i0 + 1 \<le> i" using "1.prems"(1) by simp
    have "coupon_loop (Some root) count (i0 + 1) (acc @ [m]) = Panicked"
      using "1.hyps" [OF lt Returned next_le "1.prems"(2) "1.prems"(3)] .
    then show ?thesis
      using lt Returned by (subst coupon_loop.simps) (simp del: coupon_loop.simps)
  qed
qed

text \<open>
  C6: the code does not do what the claim says. Whenever the body declares \<open>N > 0\<close>
  coupons and its \<open>xml\<close> element lacks \<open>coupon_id_i\<close> or \<open>coupon_fee_i\<close> for some \<open>i\<close>
  below \<open>N\<close>, the handler panics on the nil element: no error is returned, the decision
  function is not called, nothing is written.
\<close>

theorem HandlePaidNotify_missing_coupon_panics:
  assumes "Unmarshal_paidNotify env body = Inr ntf"
    and "ReadFromBytes env body = Inr doc"
    and "SelectElement doc ''xml'' = Some root"
    and "0 \<le> i" and "i < CouponCount (PaidNotify ntf)"
    and "SelectElement root (''coupon_id_'' @ Itoa i) = None
       \<or> SelectElement root (''coupon_fee_'' @ Itoa i) = None"
  shows "HandlePaidNotify env (Inr body) fuck = (Panicked, [])"
proof -
  have "coupon_loop (Some root) (CouponCount (PaidNotify ntf)) 0 [] = Panicked"
    using assms(4-6) by (intro coupon_loop_absent [of 0 i]) (simp_all add: Itoa_def)
  then show ?thesis
    using assms(1-5)
    by (simp add: HandlePaidNotify_def Unmarshal_ntf_def del: coupon_loop.simps)
qed

theorem HandlePaidNotify_missing_coupon_panics_witness:
  "HandlePaidNotify demo_notify_env (Inr truncated_body) accept_all = (Panicked, [])"
proof -
  have a: "Unmarshal_paidNotify demo_notify_env truncated_body = Inr truncated_ntf"
    by (simp add: demo_notify_env_def truncated_body_def demo_body_def forged_body_def)
  have b: "ReadFromBytes demo_notify_env truncated_body = Inr truncated_doc"
    by (simp add: demo_notify_env_def truncated_body_def demo_body_def forged_body_def)
  have c: "SelectElement truncated_doc ''xml'' = Some (hd (Child truncated_doc))"
    by (simp add: truncated_doc_def SelectElement_def)
  have d: "(0::int) \<le> 0" and e: "0 < CouponCount (PaidNotify truncated_ntf)"
    by (simp_all add: truncated_ntf_def zero_PaidNotify_def)
  have f: "SelectElement (hd (Child truncated_doc)) (''coupon_id_'' @ Itoa 0) = None
       \<or> SelectElement (hd (Child truncated_doc)) (''coupon_fee_'' @ Itoa 0) = None"
    by (simp add: truncated_doc_def SelectElement_def Itoa_def FormatInt10_def)
  show ?thesis
    using HandlePaidNotify_missing_coupon_panics [OF a b c d e f] .
qed

text \<open>
  C9: the code does not do what the claim says for every notification. A body whose
  envelope fails the check (\<open>return_code\<close> is \<open>FAIL\<close>) and that declares one coupon without
  its elements makes the handler panic in the coupon loop, which runs before the check:
  the error of the check is not returned.
\<close>

theorem HandlePaidNotify_failed_envelope_panics:
  "Unmarshal_paidNotify demo_notify_env failed_body = Inr failed_ntf
   \<and> Check (paidNotify.response failed_ntf) = Some (ErrorsNew (msg_trade_failed @ ''down''))
   \<and> HandlePaidNotify demo_notify_env (Inr failed_body) accept_all = (Panicked, [])"
  by (simp add: HandlePaidNotify_def demo_notify_env_def Unmarshal_ntf_def failed_ntf_def
      zero_PaidNotify_def failed_doc_def failed_body_def truncated_body_def demo_body_def
      forged_body_def SelectElement_def NewCouponResponseModel_def FormatInt10_def Check_def)

text \<open>
  Beside that panic, a failing envelope is handled as the check says: the decision
  function is never called and nothing is written, and when the coupon loop completes
  (or there is no coupon to read) the error returned is the error of the check.
\<close>

lemma HandlePaidNotify_failed_check_never_decides:
  assumes "Unmarshal_paidNotify env body = Inr ntf"
    and "Check (paidNotify.response ntf) = Some err"
  shows "snd (HandlePaidNotify env (Inr body) fuck) = []
     \<and> fst (HandlePaidNotify env (Inr body) fuck) \<noteq> Returned None"
  using assms
  by (simp add: HandlePaidNotify_def Unmarshal_ntf_def Let_def del: coupon_loop.simps
      split: sum.splits outcome.splits)

lemma HandlePaidNotify_failed_check_returns_error:
  assumes "Unmarshal_paidNotify env body = Inr ntf"
    and "Check (paidNotify.response ntf) = Some err"
    and "CouponCount (PaidNotify ntf) \<le> 0
       \<or> (ReadFromBytes env body = Inr doc
          \<and> coupon_loop (SelectElement doc ''xml'') (CouponCount (PaidNotify ntf)) 0 []
              = Returned coupons)"
  shows "HandlePaidNotify env (Inr body) fuck = (Returned (Some err), [])"
  using assms
  by (auto simp add: HandlePaidNotify_def Unmarshal_ntf_def Let_def simp del: coupon_loop.simps)

lemma find_map_same_pred:
  "(\<And>x. P (f x) = P x) \<Longrightarrow> find P (map f xs) = map_option f (find P xs)"
  by (induction xs) simp_all

lemma Tag_child_with_sign: "Tag (child_with_sign s c) = Tag c"
  by (simp add: child_with_sign_def)

lemma Tag_root_with_sign: "Tag (root_with_sign s r) = Tag r"
  by (simp add: root_with_sign_def)

lemma SelectElement_root_with_sign:
  "SelectElement (root_with_sign s r) t = map_option (child_with_sign s) (SelectElement r t)"
  by (simp add: SelectElement_def root_with_sign_def find_map_same_pred Tag_child_with_sign)

lemma SelectElement_doc_with_sign:
  "SelectElement (doc_with_sign s d) t = map_option (root_with_sign s) (SelectElement d t)"
  by (simp add: SelectElement_def doc_with_sign_def find_map_same_pred Tag_root_with_sign)

lemma SelectElement_Tag: "SelectElement r t = Some c \<Longrightarrow> Tag c = t"
  by (auto simp: SelectElement_def find_Some_iff)

lemma Text_selected_with_sign:
  assumes "t \<noteq> ''sign''"
  shows "map_option Text (SelectElement (root_with_sign s r) t) = map_option Text (SelectElement r t)"
proof (cases "SelectElement r t")
  case None
  then show ?thesis by (simp add: SelectElement_root_with_sign)
next
  case (Some c)
  then have "Tag c \<noteq> ''sign''" using assms SelectElement_Tag by blast
  then show ?thesis
    using Some by (simp add: SelectElement_root_with_sign child_with_sign_def)
qed

lemma NewCouponResponseModel_by_texts:
  "NewCouponResponseModel (Some d) idFormat feeFormat ns =
     (case map_option Text (SelectElement d (Sprintf idFormat ns)) of
        None \<Rightarrow> Panicked
      | Some idText \<Rightarrow>
          (case map_option Text (SelectElement d (Sprintf feeFormat ns)) of
             None \<Rightarrow> Panicked
           | Some feeText \<Rightarrow>
               Returned \<lparr>CouponId = idText,
                         CouponResponseModel.CouponFee = fst (ParseInt feeText)\<rparr>))"
  by (simp add: NewCouponResponseModel_def Let_def del: Sprintf.simps split: option.splits)

lemma NewCouponResponseModel_with_sign:
  "NewCouponResponseModel (map_option (root_with_sign s) root) ''coupon_id_%d'' ''coupon_fee_%d'' [i]
     = NewCouponResponseModel root ''coupon_id_%d'' ''coupon_fee_%d'' [i]"
proof (cases root)
  case None
  then show ?thesis by simp
next
  case (Some r)
  have a: "map_option Text (SelectElement (root_with_sign s r) (Sprintf ''coupon_id_%d'' [i]))
      = map_option Text (SelectElement r (Sprintf ''coupon_id_%d'' [i]))"
    by (intro Text_selected_with_sign) simp
  have b: "map_option Text (SelectElement (root_with_sign s r) (Sprintf ''coupon_fee_%d'' [i]))
      = map_option Text (SelectElement r (Sprintf ''coupon_fee_%d'' [i]))"
    by (intro Text_selected_with_sign) simp
  show ?thesis
    unfolding Some option.map NewCouponResponseModel_by_texts a b by (rule refl)
qed

lemma coupon_loop_with_sign:
  "coupon_loop (map_option (root_with_sign s) root) count i acc = coupon_loop root count i acc"
proof (induction root count i acc rule: coupon_loop.induct)
  case (1 root count i acc)
  show ?case
  proof (cases "i < count")
    case True
    show ?thesis
    proof (cases "NewCouponResponseModel root ''coupon_id_%d'' ''coupon_fee_%d'' [i]")
      case (Returned m)
      then show ?thesis
        using True "1.IH" [OF True Returned]
        by (subst (1 2) coupon_loop.simps)
           (simp add: NewCouponResponseModel_with_sign del: coupon_loop.simps)
    next
      case Panicked
      then show ?thesis
        using True
        by (subst (1 2) coupon_loop.simps)
           (simp add: NewCouponResponseModel_with_sign del: coupon_loop.simps)
    qed
  next
    case False
    then show ?thesis by (subst (1 2) coupon_loop.simps) simp
  qed
qed

text \<open>
  C4, as the claim states it, fails: the decision function receives the notification with
  its \<open>Sign\<close>, so two bodies that differ only in the sign field, handled with one decision
  function that reads \<open>Sign\<close>, are acknowledged differently (\<open>SUCCESS\<close> and \<open>FAIL\<close>).
\<close>

theorem HandlePaidNotify_ack_depends_on_decision:
  "Unmarshal_paidNotify demo_notify_env forged_body =
     map_sum id (ntf_with_sign ''FORGED'') (Unmarshal_paidNotify demo_notify_env demo_body)
   \<and> ReadFromBytes demo_notify_env forged_body =
     map_sum id (doc_with_sign ''FORGED'') (ReadFromBytes demo_notify_env demo_body)
   \<and> written (snd (HandlePaidNotify demo_notify_env (Inr demo_body) accept_signed)) =
     [''<replay><return_code>SUCCESS</return_code><return_msg></return_msg></replay>'']
   \<and> written (snd (HandlePaidNotify demo_notify_env (Inr forged_body) accept_signed)) =
     [''<replay><return_code>FAIL</return_code><return_msg>bad sign</return_msg></replay>'']"
  by (simp add: HandlePaidNotify_def demo_notify_env_def Unmarshal_ntf_def demo_ntf_def
      forged_ntf_def forged_doc_def
      zero_PaidNotify_def demo_doc_def demo_body_def forged_body_def ntf_with_sign_def
      doc_with_sign_def root_with_sign_def child_with_sign_def
      SelectElement_def NewCouponResponseModel_def FormatInt10_def Check_def
      ParseInt_def ParseUint_def is_digit_def digit_val_def accept_signed_def newReplay_def)

text \<open>
  C4, amended. The handler itself never reads the sign field. For two bodies that differ
  only in the value of the sign field and one decision function, the decision function is
  called in both runs or in neither, on notifications that differ only in \<open>Sign\<close>; and
  whenever the decision function answers the same on those two notifications, both runs
  end the same way (the same error, or the same panic) and write the same
  acknowledgement.
\<close>

theorem HandlePaidNotify_never_reads_sign:
  assumes dec: "Unmarshal_paidNotify env b2 =
      map_sum id (ntf_with_sign s) (Unmarshal_paidNotify env b1)"
    and tree: "ReadFromBytes env b2 = map_sum id (doc_with_sign s) (ReadFromBytes env b1)"
  shows "decided (snd (HandlePaidNotify env (Inr b2) fuck)) =
       map (\<lambda>n. n\<lparr>PaidNotify.Sign := s\<rparr>) (decided (snd (HandlePaidNotify env (Inr b1) fuck)))
     \<and> ((\<forall>n \<in> set (decided (snd (HandlePaidNotify env (Inr b1) fuck))).
            fuck (n\<lparr>PaidNotify.Sign := s\<rparr>) = fuck n) \<longrightarrow>
          fst (HandlePaidNotify env (Inr b2) fuck) = fst (HandlePaidNotify env (Inr b1) fuck)
          \<and> written (snd (HandlePaidNotify env (Inr b2) fuck)) =
              written (snd (HandlePaidNotify env (Inr b1) fuck)))"
proof -
  define respond where "respond ntf =
     (case Check (paidNotify.response ntf) of
        Some err \<Rightarrow> (Returned (Some err), [])
      | None \<Rightarrow>
          (let answer = fuck (PaidNotify ntf);
               replay = newReplay (fst answer) (snd answer);
               tr = [CallDecide (PaidNotify ntf)]
           in case Marshal_replay env replay of
                Inl err \<Rightarrow> (Returned (Some err), tr)
              | Inr b \<Rightarrow> (Returned (Write_error env b), tr @ [WriteHeader 200, Write b])))"
    for ntf :: paidNotify
  define pass where "pass body ntf =
     (if 0 < CouponCount (PaidNotify ntf)
      then (case ReadFromBytes env body of
              Inl err \<Rightarrow> Inl err
            | Inr doc \<Rightarrow>
                Inr (coupon_loop (SelectElement doc ''xml'')
                       (CouponCount (PaidNotify ntf)) 0 (Coupons (PaidNotify ntf))))
      else Inr (Returned (Coupons (PaidNotify ntf))))"
    for body and ntf :: paidNotify
  have H: "HandlePaidNotify env (Inr body) fuck =
     (case Unmarshal_ntf env body of
        Inl err \<Rightarrow> (Returned (Some err), [])
      | Inr ntf \<Rightarrow>
          (case pass body ntf of
             Inl err \<Rightarrow> (Returned (Some err), [])
           | Inr Panicked \<Rightarrow> (Panicked, [])
           | Inr (Returned coupons) \<Rightarrow>
               respond (ntf\<lparr>PaidNotify := (PaidNotify ntf)\<lparr>Coupons := coupons\<rparr>\<rparr>)))"
    for body
    unfolding HandlePaidNotify_def respond_def pass_def Let_def sum.case by (rule refl)
  have U: "Unmarshal_ntf env b2 = map_sum id (ntf_with_sign s) (Unmarshal_ntf env b1)"
    by (cases "Unmarshal_paidNotify env b1") (simp_all add: Unmarshal_ntf_def dec ntf_with_sign_def)
  have P: "pass b2 (ntf_with_sign s ntf) = pass b1 ntf" for ntf :: paidNotify
    by (cases "ReadFromBytes env b1")
       (simp_all add: pass_def tree ntf_with_sign_def SelectElement_doc_with_sign
          coupon_loop_with_sign del: coupon_loop.simps)
  have C: "(ntf_with_sign s ntf)\<lparr>PaidNotify := (PaidNotify (ntf_with_sign s ntf))\<lparr>Coupons := cs\<rparr>\<rparr>
      = ntf_with_sign s (ntf\<lparr>PaidNotify := (PaidNotify ntf)\<lparr>Coupons := cs\<rparr>\<rparr>)" for ntf :: paidNotify and cs
    by (simp add: ntf_with_sign_def)
  have R1: "decided (snd (respond (ntf_with_sign s ntf))) =
      map (\<lambda>n. n\<lparr>PaidNotify.Sign := s\<rparr>) (decided (snd (respond ntf)))" for ntf :: paidNotify
    by (simp add: respond_def ntf_with_sign_def Let_def split: option.splits sum.splits)
  have R2: "(\<forall>n \<in> set (decided (snd (respond ntf))). fuck (n\<lparr>PaidNotify.Sign := s\<rparr>) = fuck n) \<longrightarrow>
      fst (respond (ntf_with_sign s ntf)) = fst (respond ntf)
      \<and> written (snd (respond (ntf_with_sign s ntf))) = written (snd (respond ntf))" for ntf :: paidNotify
  proof (cases "Check (paidNotify.response ntf)")
    case (Some err)
    then show ?thesis by (simp add: respond_def ntf_with_sign_def)
  next
    case None
    have d: "decided (snd (respond ntf)) = [PaidNotify ntf]"
      by (simp add: respond_def None Let_def split: sum.splits)
    show ?thesis
    proof (intro impI)
      assume "\<forall>n \<in> set (decided (snd (respond ntf))). fuck (n\<lparr>PaidNotify.Sign := s\<rparr>) = fuck n"
      then have same: "fuck ((PaidNotify ntf)\<lparr>PaidNotify.Sign := s\<rparr>) = fuck (PaidNotify ntf)"
        by (simp add: d)
      show "fst (respond (ntf_with_sign s ntf)) = fst (respond ntf)
          \<and> written (snd (respond (ntf_with_sign s ntf))) = written (snd (respond ntf))"
        by (simp add: respond_def None ntf_with_sign_def same Let_def split: sum.splits)
    qed
  qed
  show ?thesis
  proof (cases "Unmarshal_ntf env b1")
    case (Inl err)
    then show ?thesis by (simp add: H U)
  next
    case (Inr ntf)
    then have U2: "Unmarshal_ntf env b2 = Inr (ntf_with_sign s ntf)" by (simp add: U)
    show ?thesis
    proof (cases "pass b1 ntf")
      case (Inl err)
      then show ?thesis by (simp add: H Inr U2 P)
    next
      case pr: (Inr out)
      show ?thesis
      proof (cases out)
        case Panicked
        then show ?thesis by (simp add: H Inr U2 P pr)
      next
        case (Returned cs)
        have h1: "HandlePaidNotify env (Inr b1) fuck =
            respond (ntf\<lparr>PaidNotify := (PaidNotify ntf)\<lparr>Coupons := cs\<rparr>\<rparr>)"
          by (simp add: H Inr pr Returned)
        have h2: "HandlePaidNotify env (Inr b2) fuck =
            respond (ntf_with_sign s (ntf\<lparr>PaidNotify := (PaidNotify ntf)\<lparr>Coupons := cs\<rparr>\<rparr>))"
          by (simp add: H U2 P pr Returned C)
        show ?thesis
          unfolding h1 h2 using R1 R2 by blast
      qed
    qed
  qed
qed

theorem HandlePaidNotify_never_reads_sign_witness:
  "written (snd (HandlePaidNotify demo_notify_env (Inr forged_body) accept_all)) =
     written (snd (HandlePaidNotify demo_notify_env (Inr demo_body) accept_all))
   \<and> fst (HandlePaidNotify demo_notify_env (Inr forged_body) accept_all) =
     fst (HandlePaidNotify demo_notify_env (Inr demo_body) accept_all)
   \<and> decided (snd (HandlePaidNotify demo_notify_env (Inr forged_body) accept_all)) =
     map (\<lambda>n. n\<lparr>PaidNotify.Sign := ''FORGED''\<rparr>)
       (decided (snd (HandlePaidNotify demo_notify_env (Inr demo_body) accept_all)))"
proof -
  have dec: "Unmarshal_paidNotify demo_notify_env forged_body =
      map_sum id (ntf_with_sign ''FORGED'') (Unmarshal_paidNotify demo_notify_env demo_body)"
    by (simp add: demo_notify_env_def demo_body_def forged_body_def demo_ntf_def forged_ntf_def
        ntf_with_sign_def)
  have tree: "ReadFromBytes demo_notify_env forged_body =
      map_sum id (doc_with_sign ''FORGED'') (ReadFromBytes demo_notify_env demo_body)"
    by (simp add: demo_notify_env_def demo_body_def forged_body_def demo_doc_def forged_doc_def
        doc_with_sign_def root_with_sign_def child_with_sign_def)
  have same: "\<forall>n \<in> set (decided (snd (HandlePaidNotify demo_notify_env (Inr demo_body) accept_all))).
      accept_all (n\<lparr>PaidNotify.Sign := ''FORGED''\<rparr>) = accept_all n"
    by (simp add: accept_all_def)
  show ?thesis
    using HandlePaidNotify_never_reads_sign [OF dec tree, of accept_all] same by blast
qed

section \<open>The Canonical Signer\<close>

lemma sorted_names_of_mapping:
  "sort (remdups (map fst data)) = sorted_list_of_set (dom (map_of data))"
proof -
  have "dom (map_of data) = set (map fst data)"
    by (simp add: dom_map_of_conv_image_fst)
  then show ?thesis
    by (simp only: sorted_list_of_set_sort_remdups)
qed

lemma canonical_string_of_mapping:
  "map_of xs = map_of ys \<Longrightarrow> canonical_string xs k = canonical_string ys k"
  by (simp add: canonical_string_def sorted_names_of_mapping)

lemma concat_nonempty_values:
  "concat (map (\<lambda>(name, v). if v = [] then [] else name @ ''='' @ v @ ''&'') data) =
   concat (map (\<lambda>(name, v). name @ ''='' @ v @ ''&'') (filter (\<lambda>(name, v). v \<noteq> []) data))"
  by (induction data) auto

lemma canonical_string_sorted:
  assumes "sorted (map fst data)" and "distinct (map fst data)"
  shows "canonical_string data k =
     concat (map (\<lambda>(name, v). name @ ''='' @ v @ ''&'') (filter (\<lambda>(name, v). v \<noteq> []) data))
     @ ''key='' @ k"
proof -
  let ?F = "\<lambda>name. case map_of data name of
                      None \<Rightarrow> []
                    | Some v \<Rightarrow> if v = [] then [] else name @ ''='' @ v @ ''&''"
  let ?G = "\<lambda>(name, v). if v = [] then [] else name @ ''='' @ v @ ''&''"
  have names: "sort (remdups (map fst data)) = map fst data"
    using assms by (simp add: distinct_remdups_id sort_key_id_if_sorted)
  have each: "?F (fst p) = ?G p" if "p \<in> set data" for p
  proof -
    obtain name v where p: "p = (name, v)" by (cases p)
    have "map_of data name = Some v"
      using that assms(2) p by simp
    then show ?thesis by (simp add: p)
  qed
  have eq: "map ?F (map fst data) = map ?G data"
    using each by simp
  have "canonical_string data k = concat (map ?F (map fst data)) @ ''key='' @ k"
    by (simp only: canonical_string_def names)
  also have "\<dots> = concat (map ?G data) @ ''key='' @ k"
    by (simp only: eq)
  finally show ?thesis
    by (simp only: concat_nonempty_values)
qed

text \<open>
  C1. The signature is the uppercase hexadecimal digest of the canonical string. For a
  mapping listed with its names in ascending byte order, the canonical string is
  \<open>name=value&\<close> for each field with a non-empty value, in that order, then \<open>key=\<close> and
  the secret key; and two listings of one mapping, whatever the order the fields were
  inserted in, have the same canonical string and the same signature.
\<close>

theorem sign_sorted_and_order_independent:
  "sign digest data secretKey = upper_hex (digest (canonical_string data secretKey))
   \<and> (sorted (map fst data) \<and> distinct (map fst data) \<longrightarrow>
        canonical_string data secretKey =
          concat (map (\<lambda>(name, v). name @ ''='' @ v @ ''&'')
                    (filter (\<lambda>(name, v). v \<noteq> []) data))
          @ ''key='' @ secretKey)
   \<and> (map_of data = map_of data' \<longrightarrow>
        canonical_string data secretKey = canonical_string data' secretKey
        \<and> sign digest data secretKey = sign digest data' secretKey)"
  using canonical_string_sorted [of data secretKey]
    canonical_string_of_mapping [of data data' secretKey]
  by (simp add: sign_def)

theorem sign_sorted_and_order_independent_witness:
  "canonical_string [(''appid'', ''wx1''), (''attach'', []), (''body'', ''Item'')] ''k''
     = ''appid=wx1&body=Item&key=k''
   \<and> canonical_string
       (AList.update ''appid'' ''wx1'' (AList.update ''attach'' [] (AList.update ''body'' ''Item'' [])))
       ''k'' = ''appid=wx1&body=Item&key=k''
   \<and> sign (\<lambda>s. [0x0F, 0xA0]) [(''body'', ''Item''), (''attach'', []), (''appid'', ''wx1'')] ''k''
     = ''0FA0''"
proof -
  have s: "sorted (map fst [(''appid'', ''wx1''), (''attach'', []), (''body'', ''Item'')])
      \<and> distinct (map fst [(''appid'', ''wx1''), (''attach'', []), (''body'', ''Item'')])"
    by simp
  have m: "map_of [(''appid'', ''wx1''), (''attach'', []), (''body'', ''Item'')]
      = map_of (AList.update ''appid'' ''wx1''
          (AList.update ''attach'' [] (AList.update ''body'' ''Item'' [])))"
    by (rule ext) simp
  have m2: "map_of [(''body'', ''Item''), (''attach'', []), (''appid'', ''wx1'')]
      = map_of [(''appid'', ''wx1''), (''attach'', []), (''body'', ''Item'')]"
    by (rule ext) simp
  have h: "upper_hex [0x0F, 0xA0] = ''0FA0''"
    by (simp add: upper_hex_def)
  show ?thesis
    using sign_sorted_and_order_independent
        [of "\<lambda>s. [0x0F, 0xA0]" "[(''appid'', ''wx1''), (''attach'', []), (''body'', ''Item'')]" "''k''"
          "AList.update ''appid'' ''wx1'' (AList.update ''attach'' [] (AList.update ''body'' ''Item'' []))"]
      sign_sorted_and_order_independent
        [of "\<lambda>s. [0x0F, 0xA0]" "[(''body'', ''Item''), (''attach'', []), (''appid'', ''wx1'')]" "''k''"
          "[(''appid'', ''wx1''), (''attach'', []), (''body'', ''Item'')]"]
      s m m2 h
    by simp
qed

end
